theory Spec2Isabelle
  imports Complex_Main "HOL-Library.Word"
begin

section \<open>Python strings\<close>

text \<open>
  A Python \<open>str\<close> is modelled as a \<^typ>\<open>string\<close>: a list of 8-bit characters, each
  read as the code point of the same number (U+0000 to U+00FF).  The character classes
  below are those of CPython on that range: \<open>str.isspace\<close> and the regex class
  \<open>\s\<close> agree, \<open>\w\<close> is \<open>str.isalnum\<close> plus the underscore, \<open>\d\<close> is the
  decimal digits, and \<open>str.lower\<close> moves \<open>A-Z\<close> and the upper-case Latin-1
  letters by 32.
\<close>

definition cp :: "char \<Rightarrow> nat" where
  "cp c = of_char c"

definition py_isspace :: "char \<Rightarrow> bool" where
  "py_isspace c = ((9 \<le> cp c \<and> cp c \<le> 13) \<or> (28 \<le> cp c \<and> cp c \<le> 32)
      \<or> cp c = 133 \<or> cp c = 160)"

definition py_isdigit :: "char \<Rightarrow> bool" where
  "py_isdigit c = (48 \<le> cp c \<and> cp c \<le> 57)"

definition py_isupper_char :: "char \<Rightarrow> bool" where
  "py_isupper_char c = ((65 \<le> cp c \<and> cp c \<le> 90) \<or> (192 \<le> cp c \<and> cp c \<le> 214)
      \<or> (216 \<le> cp c \<and> cp c \<le> 222))"

definition py_islower_char :: "char \<Rightarrow> bool" where
  "py_islower_char c = ((97 \<le> cp c \<and> cp c \<le> 122) \<or> cp c = 170 \<or> cp c = 181
      \<or> cp c = 186 \<or> (223 \<le> cp c \<and> cp c \<le> 246) \<or> (248 \<le> cp c \<and> cp c \<le> 255))"

definition py_isalnum :: "char \<Rightarrow> bool" where
  "py_isalnum c = (py_isdigit c \<or> py_isupper_char c \<or> py_islower_char c
      \<or> cp c = 178 \<or> cp c = 179 \<or> cp c = 185 \<or> (188 \<le> cp c \<and> cp c \<le> 190))"

text \<open>The regex class \<open>\w\<close>.\<close>

definition re_word :: "char \<Rightarrow> bool" where
  "re_word c = (py_isalnum c \<or> c = CHR ''_'')"

definition lower_char :: "char \<Rightarrow> char" where
  "lower_char c = (if py_isupper_char c then char_of (cp c + 32) else c)"

text \<open>\<open>s.lower()\<close>\<close>

definition lower :: "string \<Rightarrow> string" where
  "lower s = map lower_char s"

text \<open>\<open>s.isupper()\<close>: at least one cased character, and no lower-case one.\<close>

definition isupper :: "string \<Rightarrow> bool" where
  "isupper s = ((\<exists>c \<in> set s. py_isupper_char c) \<and> (\<forall>c \<in> set s. \<not> py_islower_char c))"

text \<open>\<open>s.strip()\<close>\<close>

definition lstrip :: "string \<Rightarrow> string" where
  "lstrip s = dropWhile py_isspace s"

definition rstrip :: "string \<Rightarrow> string" where
  "rstrip s = rev (dropWhile py_isspace (rev s))"

definition strip :: "string \<Rightarrow> string" where
  "strip s = lstrip (rstrip s)"

text \<open>\<open>a in b\<close> on strings: \<open>a\<close> occurs in \<open>b\<close> as a contiguous substring.\<close>

fun py_in :: "string \<Rightarrow> string \<Rightarrow> bool" where
  "py_in a [] = (a = [])"
| "py_in a (c # cs) = (take (length a) (c # cs) = a \<or> py_in a cs)"

text \<open>\<open>s.split('\n')\<close>: the pieces between line feeds; never the empty list.\<close>

fun split_lines :: "string \<Rightarrow> string list" where
  "split_lines [] = [[]]"
| "split_lines (c # cs) =
     (if c = CHR 0x0A then [] # split_lines cs
      else (case split_lines cs of [] \<Rightarrow> [[c]] | l # ls \<Rightarrow> (c # l) # ls))"

section \<open>Text normalizer: \<open>clean_extracted_text\<close>\<close>

text \<open>\<open>re.sub(r'\s+', ' ', s)\<close>: every maximal run of whitespace becomes one space.\<close>

function sub_ws :: "string \<Rightarrow> string" where
  "sub_ws [] = []"
| "sub_ws (c # cs) =
     (if py_isspace c then CHR '' '' # sub_ws (dropWhile py_isspace cs)
      else c # sub_ws cs)"
  by pat_completeness auto
termination
  by (relation "measure length") (auto simp: length_dropWhile_le less_Suc_eq_le)

text \<open>
  The character class of the second substitution,
  \<open>[^\w\s\-\.\,\:\;\(\)\[\]\{\}]\<close>, is the complement of \<open>kept_char\<close>.
\<close>

definition punctuation :: "char set" where
  "punctuation = set ''-.,:;()[]{}''"

definition kept_char :: "char \<Rightarrow> bool" where
  "kept_char c = (re_word c \<or> py_isspace c \<or> c \<in> punctuation)"

definition sub_special :: "string \<Rightarrow> string" where
  "sub_special s = filter kept_char s"

text \<open>
  The body of \<open>clean_extracted_text\<close>.  On a \<open>str\<close> none of its calls raises, so the
  handler that returns the text unchanged is never entered.
\<close>

definition clean_extracted_text :: "string \<Rightarrow> string" where
  "clean_extracted_text text0 =
     (let text1 = sub_ws (strip text0);
          text2 = sub_special text1;
          text3 = sub_ws text2
      in strip text3)"

text \<open>
  A string in which no two neighbouring characters are both whitespace: what collapsing
  the whitespace runs achieves.
\<close>

fun single_spaced :: "string \<Rightarrow> bool" where
  "single_spaced (a # b # cs) = (\<not> (py_isspace a \<and> py_isspace b) \<and> single_spaced (b # cs))"
| "single_spaced _ = True"

section \<open>Field extractor: \<open>extract_medicine_info\<close>\<close>

subsection \<open>The two regular expressions\<close>

text \<open>
  \<open>\b\<close> holds between two neighbouring positions when exactly one of them is a word
  character; the start and the end of the string count as non-word.
\<close>

definition is_word_at :: "char option \<Rightarrow> bool" where
  "is_word_at x = (case x of None \<Rightarrow> False | Some c \<Rightarrow> re_word c)"

definition word_boundary :: "char option \<Rightarrow> char option \<Rightarrow> bool" where
  "word_boundary a b = (is_word_at a \<noteq> is_word_at b)"

definition next_char :: "string \<Rightarrow> char option" where
  "next_char s = (case s of [] \<Rightarrow> None | c # _ \<Rightarrow> Some c)"

text \<open>
  \<open>re.search(pattern, line)\<close>: the match at the leftmost start position that has one.
  The first argument is the matcher of the pattern at one start position; it is given
  the character before that position, for \<open>\b\<close>.
\<close>

fun re_search :: "(char option \<Rightarrow> string \<Rightarrow> string option) \<Rightarrow> char option \<Rightarrow> string \<Rightarrow> string option" where
  "re_search m prev [] = m prev []"
| "re_search m prev (c # cs) =
     (case m prev (c # cs) of Some r \<Rightarrow> Some r | None \<Rightarrow> re_search m (Some c) cs)"

text \<open>
  \<open>\b\d{8,13}\b\<close> at one start position.  A digit is a word character, so the
  closing \<open>\b\<close> cannot hold inside a run of digits: the pattern matches exactly a
  maximal run of 8 to 13 digits with no word character on either side.
\<close>

definition match_barcode :: "char option \<Rightarrow> string \<Rightarrow> string option" where
  "match_barcode prev s =
     (let ds = takeWhile py_isdigit s; rest = dropWhile py_isdigit s
      in if word_boundary prev (next_char s) \<and> 8 \<le> length ds \<and> length ds \<le> 13
            \<and> word_boundary (Some (last ds)) (next_char rest)
         then Some ds else None)"

text \<open>
  \<open>\b\d+(?:\.\d+)?\s*(?:mg|mcg|g|ml|IU)\b\<close> with \<open>re.IGNORECASE\<close> at one start
  position.  Every shorter choice of a greedy part leaves that part's own kind of
  character next, where the rest of the pattern cannot continue, so each part takes its
  maximal run.  No unit is a prefix of another, so at most one alternative fits.
\<close>

definition unit_tokens :: "string list" where
  "unit_tokens = [''mg'', ''mcg'', ''g'', ''ml'', ''IU'']"

definition match_unit :: "string \<Rightarrow> string option" where
  "match_unit s =
     (case find (\<lambda>u. lower (take (length u) s) = lower u
                    \<and> word_boundary (Some (last u)) (next_char (drop (length u) s))) unit_tokens of
        None \<Rightarrow> None
      | Some u \<Rightarrow> Some (take (length u) s))"

definition match_strength :: "char option \<Rightarrow> string \<Rightarrow> string option" where
  "match_strength prev s =
     (let ds = takeWhile py_isdigit s;
          r1 = dropWhile py_isdigit s;
          frac = (case r1 of [] \<Rightarrow> []
                  | c # r2 \<Rightarrow> if c = CHR ''.'' \<and> takeWhile py_isdigit r2 \<noteq> []
                             then c # takeWhile py_isdigit r2 else []);
          r3 = drop (length frac) r1;
          ws = takeWhile py_isspace r3;
          r4 = dropWhile py_isspace r3
      in if word_boundary prev (next_char s) \<and> ds \<noteq> []
         then (case match_unit r4 of None \<Rightarrow> None | Some u \<Rightarrow> Some (ds @ frac @ ws @ u))
         else None)"

subsection \<open>Name hints: \<open>extract_potential_names\<close>\<close>

record names =
  names_brand_name :: string
  names_generic_name :: string

definition skip_words :: "string list" where
  "skip_words = [''tablet'', ''capsule'', ''injection'', ''mg'', ''mcg'', ''ml'']"

text \<open>One turn of the loop over the lines; each \<open>continue\<close> leaves \<open>names\<close> as it is.\<close>

definition names_step :: "names \<Rightarrow> string \<Rightarrow> names" where
  "names_step nm line0 =
     (let line = strip line0 in
      if line = [] \<or> length line < 3 then nm
      else if \<exists>skip_word \<in> set skip_words. py_in skip_word (lower line) then nm
      else if length line \<le> 30 \<and> isupper line then
        (if names_brand_name nm = [] then nm\<lparr>names_brand_name := line\<rparr> else nm)
      else if length line > 10 \<and> length line \<le> 50 then
        (if names_generic_name nm = [] then nm\<lparr>names_generic_name := line\<rparr> else nm)
      else nm)"

definition extract_potential_names :: "string list \<Rightarrow> names" where
  "extract_potential_names lines =
     foldl names_step \<lparr>names_brand_name = [], names_generic_name = []\<rparr> lines"

subsection \<open>The field extractor\<close>

record medicine_info =
  info_brand_name :: string
  info_generic_name :: string
  info_strength :: string
  info_manufacturer :: string
  info_barcode :: string
  info_confidence_score :: rat

definition manufacturer_keywords :: "string list" where
  "manufacturer_keywords =
     [''ltd'', ''inc'', ''corp'', ''pharma'', ''pharmaceuticals'', ''company'']"

definition empty_info :: medicine_info where
  "empty_info = \<lparr>info_brand_name = [], info_generic_name = [], info_strength = [],
     info_manufacturer = [], info_barcode = [], info_confidence_score = 0\<rparr>"

text \<open>One turn of the loop over the lines of \<open>extract_medicine_info\<close>.\<close>

definition info_step :: "medicine_info \<Rightarrow> string \<Rightarrow> medicine_info" where
  "info_step info line0 =
     (let line = strip line0 in
      if line = [] then info
      else
        let info1 = (case re_search match_barcode None line of
                       Some m \<Rightarrow> if info_barcode info = [] then info\<lparr>info_barcode := m\<rparr> else info
                     | None \<Rightarrow> info);
            info2 = (case re_search match_strength None line of
                       Some m \<Rightarrow> if info_strength info1 = [] then info1\<lparr>info_strength := m\<rparr> else info1
                     | None \<Rightarrow> info1)
        in if (\<exists>keyword \<in> set manufacturer_keywords. py_in keyword (lower line))
              \<and> info_manufacturer info2 = []
           then info2\<lparr>info_manufacturer := line\<rparr> else info2)"

text \<open>
  The fields found in a list of lines: the loop, then the name hints, which are taken
  from the same lines.
\<close>

definition extract_from_lines :: "string list \<Rightarrow> medicine_info" where
  "extract_from_lines lines =
     (let info = foldl info_step empty_info lines;
          potential_names = extract_potential_names lines
      in info\<lparr>info_brand_name := names_brand_name potential_names,
              info_generic_name := names_generic_name potential_names\<rparr>)"

text \<open>
  \<open>extract_medicine_info\<close>: on a \<open>str\<close> nothing in its body raises, so its handler is
  never entered.
\<close>

definition extract_medicine_info :: "string \<Rightarrow> medicine_info" where
  "extract_medicine_info text0 = extract_from_lines (split_lines text0)"

section \<open>Match engine: \<open>search_medicines_by_ocr_text\<close>\<close>

subsection \<open>Catalog entries, exceptions and the collaborators\<close>

text \<open>A row of the \<open>medicines\<close> table; only \<open>barcode\<close> and \<open>image_url\<close> are nullable.\<close>

record medicine =
  medicine_id :: int
  brand_name :: string
  generic_name :: string
  strength :: string
  manufacturer :: string
  uses :: string
  side_effects :: string
  warnings :: string
  image_url :: "string option"
  barcode :: "string option"

text \<open>The exceptions that reach a handler of the service.\<close>

datatype error = DatabaseError | FuzzError | ValueError | IndexError | IOError | DecodeError

text \<open>
  The three queries of \<open>MedicineService\<close> that the match engine calls on the session
  \<open>db\<close>.  A query on a database may raise, so each returns an \<open>error\<close> or its rows.
\<close>

record catalog =
  get_medicine_by_barcode :: "string \<Rightarrow> error + medicine option"
  search_medicines :: "string \<Rightarrow> int \<Rightarrow> error + medicine list"
  get_medicines :: "int \<Rightarrow> error + medicine list"

text \<open>
  The string-similarity library (\<open>fuzz.ratio\<close>, \<open>fuzz.partial_ratio\<close>) is not part of
  the repository: both functions are parameters, with a score or an exception as result.
\<close>

record fuzz =
  ratio :: "string \<Rightarrow> string \<Rightarrow> error + int"
  partial_ratio :: "string \<Rightarrow> string \<Rightarrow> error + int"

datatype match_type = Barcode | Brand_name | Generic_name | Manufacturer | Fuzzy

text \<open>
  An entry of \<open>results\<close>.  A confidence score is a Python float in the source; here it is
  the rational number the float stands for.
\<close>

record result =
  medicine :: medicine
  confidence_score :: rat
  matched_text :: string
  match_type :: match_type

subsection \<open>Name confidence\<close>

text \<open>
  \<open>calculate_name_confidence\<close>: an exception of \<open>fuzz.ratio\<close> is caught by the
  function's own handler, which returns 0.0.
\<close>

definition calculate_name_confidence :: "fuzz \<Rightarrow> string \<Rightarrow> string \<Rightarrow> rat" where
  "calculate_name_confidence F extracted_name database_name =
     (if extracted_name = [] \<or> database_name = [] then 0
      else if lower extracted_name = lower database_name then 1
      else if py_in (lower extracted_name) (lower database_name)
              \<or> py_in (lower database_name) (lower extracted_name) then 9 / 10
      else (case ratio F (lower extracted_name) (lower database_name) of
              Inl e \<Rightarrow> 0
            | Inr similarity \<Rightarrow> of_int similarity / 100))"

text \<open>
  \<open>get_best_match\<close>: the field with the highest partial ratio, the first of them on a
  tie (as \<open>max\<close> with a key does); the brand name when a score raises.
\<close>

definition get_best_match :: "fuzz \<Rightarrow> string \<Rightarrow> medicine \<Rightarrow> string" where
  "get_best_match F text0 m =
     (let text_lower = lower text0 in
      case partial_ratio F text_lower (lower (brand_name m)) of
        Inl e \<Rightarrow> brand_name m
      | Inr brand_score \<Rightarrow>
      (case partial_ratio F text_lower (lower (generic_name m)) of
        Inl e \<Rightarrow> brand_name m
      | Inr generic_score \<Rightarrow>
      (case partial_ratio F text_lower (lower (manufacturer m)) of
        Inl e \<Rightarrow> brand_name m
      | Inr manufacturer_score \<Rightarrow>
          if brand_score \<ge> generic_score \<and> brand_score \<ge> manufacturer_score then brand_name m
          else if generic_score \<ge> manufacturer_score then generic_name m
          else manufacturer m)))"

subsection \<open>The five strategies\<close>

text \<open>
  Each strategy returns the entries it appends to \<open>results\<close>, or the exception that
  leaves it.  The scoring of strategies 2 to 4 cannot raise: \<open>calculate_name_confidence\<close>
  has caught everything.
\<close>

definition strategy_barcode :: "catalog \<Rightarrow> medicine_info \<Rightarrow> error + result list" where
  "strategy_barcode db info =
     (if info_barcode info \<noteq> [] then
        (case get_medicine_by_barcode db (info_barcode info) of
           Inl e \<Rightarrow> Inl e
         | Inr None \<Rightarrow> Inr []
         | Inr (Some m) \<Rightarrow>
             Inr [\<lparr>medicine = m, confidence_score = 95 / 100,
                   matched_text = info_barcode info, match_type = Barcode\<rparr>])
      else Inr [])"

fun brand_loop :: "fuzz \<Rightarrow> string \<Rightarrow> medicine list \<Rightarrow> result list" where
  "brand_loop F hint [] = []"
| "brand_loop F hint (m # ms) =
     (let confidence = calculate_name_confidence F hint (brand_name m) in
      if confidence > 7 / 10
      then \<lparr>medicine = m, confidence_score = confidence,
             matched_text = brand_name m, match_type = Brand_name\<rparr> # brand_loop F hint ms
      else brand_loop F hint ms)"

definition strategy_brand :: "catalog \<Rightarrow> fuzz \<Rightarrow> medicine_info \<Rightarrow> int \<Rightarrow> error + result list" where
  "strategy_brand db F info limit =
     (if info_brand_name info \<noteq> [] then
        (case search_medicines db (info_brand_name info) limit of
           Inl e \<Rightarrow> Inl e
         | Inr medicines \<Rightarrow> Inr (brand_loop F (info_brand_name info) medicines))
      else Inr [])"

fun generic_loop :: "fuzz \<Rightarrow> string \<Rightarrow> medicine list \<Rightarrow> result list" where
  "generic_loop F hint [] = []"
| "generic_loop F hint (m # ms) =
     (let confidence = calculate_name_confidence F hint (generic_name m) in
      if confidence > 7 / 10
      then \<lparr>medicine = m, confidence_score = confidence,
             matched_text = generic_name m, match_type = Generic_name\<rparr> # generic_loop F hint ms
      else generic_loop F hint ms)"

definition strategy_generic :: "catalog \<Rightarrow> fuzz \<Rightarrow> medicine_info \<Rightarrow> int \<Rightarrow> error + result list" where
  "strategy_generic db F info limit =
     (if info_generic_name info \<noteq> [] then
        (case search_medicines db (info_generic_name info) limit of
           Inl e \<Rightarrow> Inl e
         | Inr medicines \<Rightarrow> Inr (generic_loop F (info_generic_name info) medicines))
      else Inr [])"

fun manufacturer_loop :: "fuzz \<Rightarrow> string \<Rightarrow> medicine list \<Rightarrow> result list" where
  "manufacturer_loop F hint [] = []"
| "manufacturer_loop F hint (m # ms) =
     (let confidence = calculate_name_confidence F hint (manufacturer m) in
      if confidence > 8 / 10
      then \<lparr>medicine = m, confidence_score = confidence * (8 / 10),
             matched_text = manufacturer m, match_type = Manufacturer\<rparr>
           # manufacturer_loop F hint ms
      else manufacturer_loop F hint ms)"

definition strategy_manufacturer :: "catalog \<Rightarrow> fuzz \<Rightarrow> medicine_info \<Rightarrow> int \<Rightarrow> error + result list" where
  "strategy_manufacturer db F info limit =
     (if info_manufacturer info \<noteq> [] then
        (case search_medicines db (info_manufacturer info) limit of
           Inl e \<Rightarrow> Inl e
         | Inr medicines \<Rightarrow> Inr (manufacturer_loop F (info_manufacturer info) medicines))
      else Inr [])"

text \<open>
  The three partial ratios of one entry in the fuzzy strategy and their maximum; the
  calls are not guarded, so an exception of any of them leaves the loop.
\<close>

definition max_similarity :: "fuzz \<Rightarrow> string \<Rightarrow> medicine \<Rightarrow> error + int" where
  "max_similarity F text0 m =
     (case partial_ratio F (lower text0) (lower (brand_name m)) of
        Inl e \<Rightarrow> Inl e
      | Inr brand_similarity \<Rightarrow>
      (case partial_ratio F (lower text0) (lower (generic_name m)) of
        Inl e \<Rightarrow> Inl e
      | Inr generic_similarity \<Rightarrow>
      (case partial_ratio F (lower text0) (lower (manufacturer m)) of
        Inl e \<Rightarrow> Inl e
      | Inr manufacturer_similarity \<Rightarrow>
          Inr (max (max brand_similarity generic_similarity) manufacturer_similarity))))"

fun fuzzy_loop :: "fuzz \<Rightarrow> string \<Rightarrow> medicine list \<Rightarrow> error + result list" where
  "fuzzy_loop F text0 [] = Inr []"
| "fuzzy_loop F text0 (m # ms) =
     (case max_similarity F text0 m of
        Inl e \<Rightarrow> Inl e
      | Inr sim \<Rightarrow>
          (case fuzzy_loop F text0 ms of
             Inl e \<Rightarrow> Inl e
           | Inr rest \<Rightarrow>
               if sim > 70
               then Inr (\<lparr>medicine = m, confidence_score = of_int sim / 100,
                          matched_text = get_best_match F text0 m, match_type = Fuzzy\<rparr> # rest)
               else Inr rest))"

definition strategy_fuzzy :: "catalog \<Rightarrow> fuzz \<Rightarrow> string \<Rightarrow> error + result list" where
  "strategy_fuzzy db F text0 =
     (case get_medicines db 100 of
        Inl e \<Rightarrow> Inl e
      | Inr all_medicines \<Rightarrow> fuzzy_loop F text0 all_medicines)"

text \<open>
  The list \<open>results\<close> when the last strategy has run: the strategies in the order of the
  source, each appending to what the earlier ones left, the first exception ending all.
\<close>

definition collect_results :: "catalog \<Rightarrow> fuzz \<Rightarrow> medicine_info \<Rightarrow> string \<Rightarrow> int \<Rightarrow> error + result list" where
  "collect_results db F info text0 limit =
     (case strategy_barcode db info of Inl e \<Rightarrow> Inl e | Inr r1 \<Rightarrow>
      (case strategy_brand db F info limit of Inl e \<Rightarrow> Inl e | Inr r2 \<Rightarrow>
      (case strategy_generic db F info limit of Inl e \<Rightarrow> Inl e | Inr r3 \<Rightarrow>
      (case strategy_manufacturer db F info limit of Inl e \<Rightarrow> Inl e | Inr r4 \<Rightarrow>
      (case strategy_fuzzy db F text0 of Inl e \<Rightarrow> Inl e | Inr r5 \<Rightarrow>
         Inr (r1 @ r2 @ r3 @ r4 @ r5))))))"

subsection \<open>Result aggregator\<close>

text \<open>The loop of \<open>remove_duplicate_results\<close>, with its two variables.\<close>

fun dedup_loop :: "int set \<Rightarrow> result list \<Rightarrow> result list \<Rightarrow> result list" where
  "dedup_loop seen_medicines unique_results [] = unique_results"
| "dedup_loop seen_medicines unique_results (r # rs) =
     (if medicine_id (medicine r) \<notin> seen_medicines
      then dedup_loop (insert (medicine_id (medicine r)) seen_medicines) (unique_results @ [r]) rs
      else dedup_loop seen_medicines unique_results rs)"

definition remove_duplicate_results :: "result list \<Rightarrow> result list" where
  "remove_duplicate_results results = dedup_loop {} [] results"

text \<open>
  \<open>unique_results.sort(key=lambda x: x['confidence_score'], reverse=True)\<close>: Python's
  sort is stable, also with \<open>reverse=True\<close>, so entries of equal score keep their order.
\<close>

definition sort_by_confidence :: "result list \<Rightarrow> result list" where
  "sort_by_confidence rs = sort_key (\<lambda>x. - confidence_score x) rs"

text \<open>\<open>xs[:limit]\<close>: a negative \<open>limit\<close> counts from the end.\<close>

definition slice_to :: "int \<Rightarrow> 'a list \<Rightarrow> 'a list" where
  "slice_to limit xs =
     (if limit \<ge> 0 then take (nat limit) xs else take (length xs - nat (- limit)) xs)"

text \<open>The last three statements of the \<open>try\<close> block, on the list \<open>results\<close>.\<close>

definition aggregate :: "result list \<Rightarrow> int \<Rightarrow> result list" where
  "aggregate results limit = slice_to limit (sort_by_confidence (remove_duplicate_results results))"

text \<open>
  \<open>search_medicines_by_ocr_text\<close>: the handler around the whole body turns every
  exception into the empty list.
\<close>

definition search_medicines_by_ocr_text :: "catalog \<Rightarrow> fuzz \<Rightarrow> string \<Rightarrow> int \<Rightarrow> result list" where
  "search_medicines_by_ocr_text db F text0 limit =
     (let medicine_info = extract_medicine_info text0 in
      case collect_results db F medicine_info text0 limit of
        Inl e \<Rightarrow> []
      | Inr results \<Rightarrow> aggregate results limit)"

text \<open>A similarity library both of whose functions give the same answer on all inputs.\<close>

definition fuzz_const :: "error + int \<Rightarrow> fuzz" where
  "fuzz_const r = \<lparr>ratio = (\<lambda>a b. r), partial_ratio = (\<lambda>a b. r)\<rparr>"

text \<open>
  The position of a strategy in the body of \<open>search_medicines_by_ocr_text\<close>; a smaller
  number is an earlier strategy, that is a tag of higher priority.
\<close>

fun strategy_order :: "match_type \<Rightarrow> nat" where
  "strategy_order Barcode = 0"
| "strategy_order Brand_name = 1"
| "strategy_order Generic_name = 2"
| "strategy_order Manufacturer = 3"
| "strategy_order Fuzzy = 4"

text \<open>\<open>a\<close> stands at an earlier position of the list than some occurrence of \<open>b\<close>.\<close>

fun appears_before :: "'a list \<Rightarrow> 'a \<Rightarrow> 'a \<Rightarrow> bool" where
  "appears_before [] a b = False"
| "appears_before (x # xs) a b = ((x = a \<and> b \<in> set xs) \<or> appears_before xs a b)"

subsection \<open>The catalog queries of \<open>MedicineService\<close> on a table\<close>

text \<open>
  The table \<open>medicines\<close> is the list of its rows in the order the database returns
  them.  \<open>like_match\<close> is the SQL operator \<open>LIKE\<close>: in the pattern \<open>%\<close> stands for any
  string and \<open>_\<close> for any one character.  \<open>ilike\<close> compares the lower-case forms, and the
  query string is placed between two \<open>%\<close>.
\<close>

fun like_match :: "string \<Rightarrow> string \<Rightarrow> bool" where
  "like_match [] s = (s = [])"
| "like_match (p # ps) [] = (p = CHR ''%'' \<and> like_match ps [])"
| "like_match (p # ps) (c # cs) =
     (if p = CHR ''%'' then like_match ps (c # cs) \<or> like_match (p # ps) cs
      else (p = CHR ''_'' \<or> p = c) \<and> like_match ps cs)"

definition ilike :: "string \<Rightarrow> string \<Rightarrow> bool" where
  "ilike column query = like_match (lower (''%'' @ query @ ''%'')) (lower column)"

text \<open>\<open>.limit(n)\<close> and \<open>.offset(n)\<close>; SQLite reads a negative limit as no limit and a
  negative offset as zero.\<close>

definition sql_limit :: "int \<Rightarrow> 'a list \<Rightarrow> 'a list" where
  "sql_limit n xs = (if n < 0 then xs else take (nat n) xs)"

definition table_get_medicine_by_barcode :: "medicine list \<Rightarrow> string \<Rightarrow> medicine option" where
  "table_get_medicine_by_barcode rows b = find (\<lambda>m. barcode m = Some b) rows"

definition table_search_medicines :: "medicine list \<Rightarrow> string \<Rightarrow> int \<Rightarrow> medicine list" where
  "table_search_medicines rows query limit =
     sql_limit limit
       (filter (\<lambda>m. ilike (brand_name m) query \<or> ilike (generic_name m) query
                     \<or> ilike (manufacturer m) query) rows)"

definition table_get_medicines :: "medicine list \<Rightarrow> int \<Rightarrow> int \<Rightarrow> medicine list" where
  "table_get_medicines rows skip limit = sql_limit limit (drop (nat skip) rows)"

text \<open>The catalog whose queries run on the table \<open>rows\<close> and never raise.\<close>

definition medicine_service :: "medicine list \<Rightarrow> catalog" where
  "medicine_service rows =
     \<lparr>get_medicine_by_barcode = (\<lambda>b. Inr (table_get_medicine_by_barcode rows b)),
      search_medicines = (\<lambda>query limit. Inr (table_search_medicines rows query limit)),
      get_medicines = (\<lambda>limit. Inr (table_get_medicines rows 0 limit))\<rparr>"

text \<open>A row with the given id, names and barcode, its other columns empty.\<close>

definition entry :: "int \<Rightarrow> string \<Rightarrow> string \<Rightarrow> string \<Rightarrow> string option \<Rightarrow> medicine" where
  "entry i brand generic maker code =
     \<lparr>medicine_id = i, brand_name = brand, generic_name = generic, strength = [],
      manufacturer = maker, uses = [], side_effects = [], warnings = [],
      image_url = None, barcode = code\<rparr>"

section \<open>Scan entry points\<close>

type_synonym byte = "8 word"

text \<open>
  The imaging libraries are not part of the repository.  \<open>'img\<close> is the type of a pixel
  array; \<open>imdecode\<close> is \<open>cv2.imdecode\<close> on the bytes of the buffer (\<open>None\<close> for a buffer
  it cannot decode, or an exception), \<open>cv_preprocess\<close> is the chain of OpenCV calls in
  \<open>preprocess_image\<close>, \<open>image_to_string\<close> is the recognizer and \<open>b64decode\<close> is
  \<open>base64.b64decode\<close>.
\<close>

record 'img vision =
  imdecode :: "byte list \<Rightarrow> error + 'img option"
  cv_preprocess :: "'img \<Rightarrow> error + 'img"
  image_to_string :: "'img \<Rightarrow> error + string"
  b64decode :: "string \<Rightarrow> error + byte list"

definition preprocess_image :: "'img vision \<Rightarrow> 'img \<Rightarrow> 'img" where
  "preprocess_image V img =
     (case cv_preprocess V img of Inl e \<Rightarrow> img | Inr cleaned \<Rightarrow> cleaned)"

definition extract_text_from_image :: "'img vision \<Rightarrow> 'img \<Rightarrow> string" where
  "extract_text_from_image V img =
     (case image_to_string V (preprocess_image V img) of
        Inl e \<Rightarrow> []
      | Inr text0 \<Rightarrow> clean_extracted_text text0)"

text \<open>
  The statements of \<open>process_image_file\<close> after the read, shared with
  \<open>process_base64_image\<close>: \<open>Inl\<close> is an exception that leaves the \<open>try\<close> block.
\<close>

definition decode_and_extract :: "'img vision \<Rightarrow> byte list \<Rightarrow> error + string \<times> medicine_info" where
  "decode_and_extract V image_bytes =
     (case imdecode V image_bytes of
        Inl e \<Rightarrow> Inl e
      | Inr None \<Rightarrow> Inl ValueError
      | Inr (Some img) \<Rightarrow>
          (let extracted_text = extract_text_from_image V img;
               medicine_info = extract_medicine_info extracted_text
           in Inr (extracted_text, medicine_info)))"

text \<open>
  What a caller of the two entry points receives: \<open>Inr\<close> is a returned tuple, whose
  second component is \<open>None\<close> for the empty dict \<open>{}\<close>; \<open>Inl\<close> would be an exception
  that reaches the caller.  The argument of \<open>process_image_file\<close> is what
  \<open>image_file.read()\<close> gives.
\<close>

definition process_image_file ::
    "'img vision \<Rightarrow> error + byte list \<Rightarrow> error + string \<times> medicine_info option" where
  "process_image_file V image_file =
     (case (case image_file of Inl e \<Rightarrow> Inl e
            | Inr image_bytes \<Rightarrow> decode_and_extract V image_bytes) of
        Inl e \<Rightarrow> Inr ([], None)
      | Inr (extracted_text, medicine_info) \<Rightarrow> Inr (extracted_text, Some medicine_info))"

text \<open>\<open>s.split(',')\<close> and \<open>s.startswith(p)\<close>.\<close>

fun split_comma :: "string \<Rightarrow> string list" where
  "split_comma [] = [[]]"
| "split_comma (c # cs) =
     (if c = CHR '','' then [] # split_comma cs
      else (case split_comma cs of [] \<Rightarrow> [[c]] | l # ls \<Rightarrow> (c # l) # ls))"

definition startswith :: "string \<Rightarrow> string \<Rightarrow> bool" where
  "startswith s p = (take (length p) s = p)"

definition strip_data_url :: "string \<Rightarrow> error + string" where
  "strip_data_url base64_string =
     (if startswith base64_string ''data:image'' then
        (case split_comma base64_string of
           _ # payload # _ \<Rightarrow> Inr payload
         | _ \<Rightarrow> Inl IndexError)
      else Inr base64_string)"

definition process_base64_image ::
    "'img vision \<Rightarrow> string \<Rightarrow> error + string \<times> medicine_info option" where
  "process_base64_image V base64_string =
     (case (case strip_data_url base64_string of Inl e \<Rightarrow> Inl e
            | Inr payload \<Rightarrow>
                (case b64decode V payload of Inl e \<Rightarrow> Inl e
                 | Inr image_bytes \<Rightarrow> decode_and_extract V image_bytes)) of
        Inl e \<Rightarrow> Inr ([], None)
      | Inr (extracted_text, medicine_info) \<Rightarrow> Inr (extracted_text, Some medicine_info))"

section \<open>Concrete collaborators and inputs\<close>

text \<open>The catalog entry and the scan text of the end-to-end scenario of the specification.\<close>

definition napa :: medicine where
  "napa = entry 1 ''Napa'' ''Paracetamol'' ''Beximco Pharma'' (Some ''8901234567'')"

definition scan_text :: string where
  "scan_text = ''NAPA 500MG TABLET BEXIMCO PHARMA 8901234567''"

text \<open>An imaging library that decodes no buffer and recognizes no text.\<close>

definition no_decoder :: "unit vision" where
  "no_decoder = \<lparr>imdecode = (\<lambda>bs. Inr None), cv_preprocess = (\<lambda>i. Inr i),
     image_to_string = (\<lambda>i. Inr []), b64decode = (\<lambda>s. Inr [])\<rparr>"

text \<open>A candidate for the catalog entry with the given id, with a score and a tag.\<close>

definition candidate :: "int \<Rightarrow> rat \<Rightarrow> match_type \<Rightarrow> result" where
  "candidate i score tag =
     \<lparr>medicine = entry i [] [] [] None, confidence_score = score,
      matched_text = [], match_type = tag\<rparr>"

text \<open>The candidate list is in strategy execution order.\<close>

definition strategy_ordered :: "result list \<Rightarrow> bool" where
  "strategy_ordered rs =
     sorted_wrt (\<lambda>a b. strategy_order (match_type a) \<le> strategy_order (match_type b)) rs"

text \<open>The catalog on a table whose bulk listing raises, its other queries working.\<close>

definition broken_listing :: "medicine list \<Rightarrow> catalog" where
  "broken_listing rows = (medicine_service rows)\<lparr>get_medicines := (\<lambda>limit. Inl DatabaseError)\<rparr>"

section \<open>Properties of the string functions\<close>

lemmas char_class_defs =
  cp_def py_isspace_def py_isdigit_def py_isupper_char_def py_islower_char_def
  py_isalnum_def re_word_def lower_char_def

lemmas strip_defs = strip_def lstrip_def rstrip_def

lemma sub_ws_space: "c \<in> set (sub_ws s) \<Longrightarrow> py_isspace c \<Longrightarrow> c = CHR '' ''"
  by (induction s rule: sub_ws.induct) (auto split: if_splits)

lemma sub_ws_set: "c \<in> set (sub_ws s) \<Longrightarrow> c \<in> set s \<or> c = CHR '' ''"
  by (induction s rule: sub_ws.induct) (auto split: if_splits dest: set_dropWhileD)

lemma hd_sub_ws_dropWhile: "sub_ws (dropWhile py_isspace cs) = x # xs \<Longrightarrow> \<not> py_isspace x"
  by (cases "dropWhile py_isspace cs") (auto split: if_splits simp: dropWhile_eq_Cons_conv)

lemma sub_ws_single: "single_spaced (sub_ws s)"
proof (induction s rule: sub_ws.induct)
  case 1
  show ?case by simp
next
  case (2 c cs)
  show ?case
  proof (cases "py_isspace c")
    case True
    with 2 show ?thesis
      by (cases "sub_ws (dropWhile py_isspace cs)") (auto dest: hd_sub_ws_dropWhile)
  next
    case False
    with 2 show ?thesis by (cases "sub_ws cs") auto
  qed
qed

lemma single_spaced_dropWhile: "single_spaced s \<Longrightarrow> single_spaced (dropWhile P s)"
  by (induction s rule: single_spaced.induct) auto

lemma single_spaced_append: "single_spaced (xs @ ys) \<Longrightarrow> single_spaced xs"
  by (induction xs rule: single_spaced.induct) auto

lemma rstrip_prefix: "s = rstrip s @ rev (takeWhile py_isspace (rev s))"
  unfolding rstrip_def by (metis rev_append rev_rev_ident takeWhile_dropWhile_id)

lemma single_spaced_strip:
  assumes "single_spaced s"
  shows "single_spaced (strip s)"
proof -
  have "single_spaced (rstrip s @ rev (takeWhile py_isspace (rev s)))"
    using assms rstrip_prefix [of s] by simp
  then have "single_spaced (rstrip s)" by (rule single_spaced_append)
  then show ?thesis by (simp add: strip_def lstrip_def single_spaced_dropWhile)
qed

lemma last_dropWhile_eq: "dropWhile P xs \<noteq> [] \<Longrightarrow> last (dropWhile P xs) = last xs"
  by (induction xs) (auto split: if_splits)

lemma strip_ends:
  assumes ne: "strip s \<noteq> []"
  shows "\<not> py_isspace (hd (strip s)) \<and> \<not> py_isspace (last (strip s))"
proof -
  let ?d = "dropWhile py_isspace (rev s)"
  have h: "\<not> py_isspace (hd (strip s))"
    using ne hd_dropWhile [of py_isspace "rstrip s"] by (simp add: strip_def lstrip_def)
  have dne: "?d \<noteq> []" using ne by (cases ?d) (simp_all add: strip_defs)
  have "last (strip s) = last (rstrip s)"
    using ne by (simp add: strip_def lstrip_def last_dropWhile_eq)
  also have "\<dots> = hd ?d" using dne by (simp add: rstrip_def last_rev)
  finally have "last (strip s) = hd ?d" .
  with hd_dropWhile [OF dne] h show ?thesis by simp
qed

lemma set_strip: "set (strip s) \<subseteq> set s"
  by (auto simp: strip_defs dest!: set_dropWhileD)

section \<open>Text normalizer\<close>

lemma clean_extracted_text_chars:
  assumes "c \<in> set (clean_extracted_text t)"
  shows "re_word c \<or> c = CHR '' '' \<or> c \<in> punctuation"
proof -
  let ?t2 = "sub_special (sub_ws (strip t))"
  from assms have c3: "c \<in> set (sub_ws ?t2)"
    using set_strip [of "sub_ws ?t2"] by (auto simp: clean_extracted_text_def Let_def)
  show ?thesis
  proof (cases "py_isspace c")
    case True
    with c3 show ?thesis by (simp add: sub_ws_space)
  next
    case False
    from sub_ws_set [OF c3] have "c \<in> set ?t2 \<or> c = CHR '' ''" .
    with False show ?thesis by (auto simp: sub_special_def kept_char_def)
  qed
qed

text \<open>
  C9 (as the code has it): every character of the normalizer's result is a regex word
  character (a letter, a digit or other alphanumeric, or the underscore), a space, or
  one of the punctuation marks \<open>- . , : ; ( ) [ ] { }\<close>; no two neighbouring characters
  are both whitespace; the result neither starts nor ends with whitespace; and the two
  examples of the specification evaluate as stated.
\<close>

theorem clean_extracted_text_allow_list:
  "(\<forall>c \<in> set (clean_extracted_text t). re_word c \<or> c = CHR '' '' \<or> c \<in> punctuation)
   \<and> single_spaced (clean_extracted_text t)
   \<and> (clean_extracted_text t \<noteq> [] \<longrightarrow>
        \<not> py_isspace (hd (clean_extracted_text t)) \<and> \<not> py_isspace (last (clean_extracted_text t)))
   \<and> clean_extracted_text (''A  B'' @ [CHR 0x0A, CHR 0x09] @ ''C'') = ''A B C''
   \<and> clean_extracted_text [] = []"
proof -
  have a: "\<forall>c \<in> set (clean_extracted_text t). re_word c \<or> c = CHR '' '' \<or> c \<in> punctuation"
    using clean_extracted_text_chars by blast
  have b: "single_spaced (clean_extracted_text t)"
    by (simp add: clean_extracted_text_def Let_def single_spaced_strip sub_ws_single)
  have c: "clean_extracted_text t \<noteq> [] \<longrightarrow>
        \<not> py_isspace (hd (clean_extracted_text t)) \<and> \<not> py_isspace (last (clean_extracted_text t))"
    using strip_ends by (simp add: clean_extracted_text_def Let_def)
  have d: "clean_extracted_text (''A  B'' @ [CHR 0x0A, CHR 0x09] @ ''C'') = ''A B C''"
    by (simp add: clean_extracted_text_def strip_defs sub_special_def kept_char_def
        char_class_defs punctuation_def)
  have e: "clean_extracted_text [] = []"
    by (simp add: clean_extracted_text_def strip_defs sub_special_def)
  from a b c d e show ?thesis by blast
qed

theorem clean_extracted_text_allow_list_witness:
  "CHR ''a'' \<in> set (clean_extracted_text '' a_b '')
   \<and> (re_word (CHR ''a'') \<or> CHR ''a'' = CHR '' '' \<or> CHR ''a'' \<in> punctuation)
   \<and> clean_extracted_text '' a_b '' \<noteq> []
   \<and> \<not> py_isspace (hd (clean_extracted_text '' a_b ''))
   \<and> \<not> py_isspace (last (clean_extracted_text '' a_b ''))"
  using clean_extracted_text_allow_list [of "'' a_b ''"]
  by (simp add: clean_extracted_text_def strip_defs sub_special_def kept_char_def
      char_class_defs punctuation_def)

text \<open>
  The underscore is a word character of the regex, so it passes the normalizer although
  it is neither a letter, a digit, a space nor one of the listed punctuation marks.
\<close>

theorem clean_extracted_text_underscore:
  "CHR ''_'' \<in> set (clean_extracted_text ''a_b'')
   \<and> \<not> (py_isalnum (CHR ''_'') \<or> CHR ''_'' = CHR '' '' \<or> CHR ''_'' \<in> punctuation)"
  by (simp add: clean_extracted_text_def strip_defs sub_special_def kept_char_def
      char_class_defs punctuation_def)

section \<open>Name confidence\<close>

lemma lower_Nil_iff: "lower a = lower b \<Longrightarrow> (a = []) = (b = [])"
  by (auto simp: lower_def)

lemma cnc_case_insensitive:
  assumes "lower a = lower a'" "lower b = lower b'"
  shows "calculate_name_confidence F a b = calculate_name_confidence F a' b'"
  using assms lower_Nil_iff [OF assms(1)] lower_Nil_iff [OF assms(2)]
  by (simp add: calculate_name_confidence_def)

text \<open>
  C5: \<open>calculate_name_confidence\<close> depends on its arguments only through their
  lower-case forms; on two non-empty strings it is 1.0 when these are equal and 0.9 when
  they differ and one contains the other; it is 0.0 as soon as one argument is empty.
  None of these values depends on the similarity library \<open>F\<close>, so the edit-distance
  path is not taken.  The three examples of the specification evaluate as stated.
\<close>

theorem calculate_name_confidence_cases:
  "(lower a = lower a' \<and> lower b = lower b' \<longrightarrow>
      calculate_name_confidence F a b = calculate_name_confidence F a' b')
   \<and> (a \<noteq> [] \<and> b \<noteq> [] \<and> lower a = lower b \<longrightarrow> calculate_name_confidence F a b = 1)
   \<and> (a \<noteq> [] \<and> b \<noteq> [] \<and> lower a \<noteq> lower b
        \<and> (py_in (lower a) (lower b) \<or> py_in (lower b) (lower a))
        \<longrightarrow> calculate_name_confidence F a b = 9 / 10)
   \<and> (a = [] \<or> b = [] \<longrightarrow> calculate_name_confidence F a b = 0)
   \<and> calculate_name_confidence F ''Panadol'' ''Panadol'' = 1
   \<and> calculate_name_confidence F ''Pana'' ''Panadol'' = 9 / 10
   \<and> calculate_name_confidence F [] ''Panadol'' = 0"
proof -
  have c1: "lower a = lower a' \<and> lower b = lower b' \<longrightarrow>
      calculate_name_confidence F a b = calculate_name_confidence F a' b'"
    using cnc_case_insensitive by blast
  have c2: "a \<noteq> [] \<and> b \<noteq> [] \<and> lower a = lower b \<longrightarrow> calculate_name_confidence F a b = 1"
    by (simp add: calculate_name_confidence_def)
  have c3: "a \<noteq> [] \<and> b \<noteq> [] \<and> lower a \<noteq> lower b
        \<and> (py_in (lower a) (lower b) \<or> py_in (lower b) (lower a))
        \<longrightarrow> calculate_name_confidence F a b = 9 / 10"
    by (simp add: calculate_name_confidence_def)
  have c4: "a = [] \<or> b = [] \<longrightarrow> calculate_name_confidence F a b = 0"
    by (auto simp add: calculate_name_confidence_def)
  have e1: "calculate_name_confidence F ''Panadol'' ''Panadol'' = 1"
    by (simp add: calculate_name_confidence_def)
  have e2: "calculate_name_confidence F ''Pana'' ''Panadol'' = 9 / 10"
    by code_simp
  have e3: "calculate_name_confidence F [] ''Panadol'' = 0"
    by (simp add: calculate_name_confidence_def)
  from c1 c2 c3 c4 e1 e2 e3 show ?thesis by blast
qed

theorem calculate_name_confidence_cases_witness:
  "lower ''PANA'' = lower ''pana'' \<and> lower ''Panadol'' = lower ''PANADOL''
   \<and> ''PANA'' \<noteq> [] \<and> ''Panadol'' \<noteq> [] \<and> lower ''PANA'' \<noteq> lower ''Panadol''
   \<and> py_in (lower ''PANA'') (lower ''Panadol'')
   \<and> calculate_name_confidence (fuzz_const (Inl FuzzError)) ''PANA'' ''Panadol''
       = calculate_name_confidence (fuzz_const (Inl FuzzError)) ''pana'' ''PANADOL''
   \<and> calculate_name_confidence (fuzz_const (Inl FuzzError)) ''PANA'' ''Panadol'' = 9 / 10"
proof -
  have h1: "lower ''PANA'' = lower ''pana''" by code_simp
  have h2: "lower ''Panadol'' = lower ''PANADOL''" by code_simp
  have h3: "''PANA'' \<noteq> [] \<and> ''Panadol'' \<noteq> []" by simp
  have h4: "lower ''PANA'' \<noteq> lower ''Panadol''" by code_simp
  have h5: "py_in (lower ''PANA'') (lower ''Panadol'')" by code_simp
  from h1 h2 h3 h4 h5
    calculate_name_confidence_cases [of "''PANA''" "''pana''" "''Panadol''" "''PANADOL''"
      "fuzz_const (Inl FuzzError)"]
  show ?thesis by blast
qed

section \<open>Manufacturer strategy\<close>




section \<open>Name hints\<close>

lemma names_step_inv:
  assumes "names_brand_name nm = [] \<or> 3 \<le> length (names_brand_name nm)"
    and "names_generic_name nm = [] \<or> 3 \<le> length (names_generic_name nm)"
  shows "(names_brand_name (names_step nm l) = []
            \<or> 3 \<le> length (names_brand_name (names_step nm l)))
       \<and> (names_generic_name (names_step nm l) = []
            \<or> 3 \<le> length (names_generic_name (names_step nm l)))"
  using assms by (auto simp: names_step_def Let_def)

lemma foldl_names_step_inv:
  assumes "names_brand_name nm = [] \<or> 3 \<le> length (names_brand_name nm)"
    and "names_generic_name nm = [] \<or> 3 \<le> length (names_generic_name nm)"
  shows "(names_brand_name (foldl names_step nm ls) = []
            \<or> 3 \<le> length (names_brand_name (foldl names_step nm ls)))
       \<and> (names_generic_name (foldl names_step nm ls) = []
            \<or> 3 \<le> length (names_generic_name (foldl names_step nm ls)))"
  using assms
proof (induction ls arbitrary: nm)
  case Nil
  then show ?case by simp
next
  case (Cons l ls)
  from names_step_inv [OF Cons.prems] Cons.IH [of "names_step nm l"]
  show ?case by simp
qed

text \<open>
  C10: each name hint is either absent (empty) or at least 3 characters long; hence a
  line whose stripped form is non-empty and shorter than 3 characters is neither the
  brand-name hint nor the generic-name hint, whatever its case and content.
\<close>

theorem short_line_never_hint:
  "(names_brand_name (extract_potential_names lines) = []
      \<or> 3 \<le> length (names_brand_name (extract_potential_names lines)))
   \<and> (names_generic_name (extract_potential_names lines) = []
      \<or> 3 \<le> length (names_generic_name (extract_potential_names lines)))
   \<and> (\<forall>l \<in> set lines. strip l \<noteq> [] \<and> length (strip l) < 3 \<longrightarrow>
         names_brand_name (extract_potential_names lines) \<noteq> strip l
       \<and> names_generic_name (extract_potential_names lines) \<noteq> strip l)"
proof -
  let ?N = "extract_potential_names lines"
  have inv: "(names_brand_name ?N = [] \<or> 3 \<le> length (names_brand_name ?N))
       \<and> (names_generic_name ?N = [] \<or> 3 \<le> length (names_generic_name ?N))"
    unfolding extract_potential_names_def by (rule foldl_names_step_inv) simp_all
  then show ?thesis by auto
qed

theorem short_line_never_hint_witness:
  "''AB'' \<in> set [''AB'', ''NAPA''] \<and> strip ''AB'' \<noteq> [] \<and> length (strip ''AB'') < 3
   \<and> isupper ''AB''
   \<and> names_brand_name (extract_potential_names [''AB'', ''NAPA'']) = ''NAPA''
   \<and> names_brand_name (extract_potential_names [''AB'', ''NAPA'']) \<noteq> strip ''AB''
   \<and> names_generic_name (extract_potential_names [''AB'', ''NAPA'']) \<noteq> strip ''AB''"
proof -
  have h1: "''AB'' \<in> set [''AB'', ''NAPA'']" by simp
  have h2: "strip ''AB'' \<noteq> [] \<and> length (strip ''AB'') < 3" by code_simp
  have h3: "isupper ''AB''" by code_simp
  have h4: "names_brand_name (extract_potential_names [''AB'', ''NAPA'']) = ''NAPA''"
    by code_simp
  from h1 h2 h3 h4 short_line_never_hint [of "[''AB'', ''NAPA'']"]
  show ?thesis by blast
qed

section \<open>Scan entry points\<close>

text \<open>
  C4 (as the code has it): both entry points always return a tuple, never an exception;
  for a buffer that the decoder rejects (by returning nothing or by raising), the
  \<open>ValueError\<close> raised inside the \<open>try\<close> block is caught by the function's own handler
  and the caller receives the empty text and the empty dict.
\<close>

theorem undecodable_image_returns_empty:
  "(\<exists>r. process_image_file V image_file = Inr r)
   \<and> (\<exists>r. process_base64_image V base64_string = Inr r)
   \<and> (imdecode V image_bytes = Inr None \<or> (\<exists>e. imdecode V image_bytes = Inl e) \<longrightarrow>
         (\<exists>e. decode_and_extract V image_bytes = Inl e)
       \<and> process_image_file V (Inr image_bytes) = Inr ([], None)
       \<and> (strip_data_url base64_string = Inr payload \<and> b64decode V payload = Inr image_bytes
            \<longrightarrow> process_base64_image V base64_string = Inr ([], None)))"
proof -
  have a: "\<exists>r. process_image_file V image_file = Inr r"
    by (auto simp: process_image_file_def split: sum.splits prod.splits)
  have b: "\<exists>r. process_base64_image V base64_string = Inr r"
    by (auto simp: process_base64_image_def split: sum.splits prod.splits)
  have c: "imdecode V image_bytes = Inr None \<or> (\<exists>e. imdecode V image_bytes = Inl e) \<longrightarrow>
         (\<exists>e. decode_and_extract V image_bytes = Inl e)"
    by (auto simp: decode_and_extract_def)
  have d: "(\<exists>e. decode_and_extract V image_bytes = Inl e) \<longrightarrow>
       process_image_file V (Inr image_bytes) = Inr ([], None)
       \<and> (strip_data_url base64_string = Inr payload \<and> b64decode V payload = Inr image_bytes
            \<longrightarrow> process_base64_image V base64_string = Inr ([], None))"
    by (auto simp: process_image_file_def process_base64_image_def)
  from a b c d show ?thesis by blast
qed

theorem undecodable_image_returns_empty_witness:
  "imdecode no_decoder [] = Inr None
   \<and> process_image_file no_decoder (Inr []) = Inr ([], None)
   \<and> strip_data_url ''data:image/png;base64,AAAA'' = Inr ''AAAA''
   \<and> b64decode no_decoder ''AAAA'' = Inr []
   \<and> process_base64_image no_decoder ''data:image/png;base64,AAAA'' = Inr ([], None)"
proof -
  have h1: "imdecode no_decoder [] = Inr None" by (simp add: no_decoder_def)
  have h2: "strip_data_url ''data:image/png;base64,AAAA'' = Inr ''AAAA''" by code_simp
  have h3: "b64decode no_decoder ''AAAA'' = Inr []" by (simp add: no_decoder_def)
  from h1 h2 h3
    undecodable_image_returns_empty [of no_decoder _ "''data:image/png;base64,AAAA''" "[]" "''AAAA''"]
  show ?thesis by blast
qed

text \<open>
  The empty buffer is not decoded, the body raises \<open>ValueError\<close>, and the caller gets a
  normal result.
\<close>

theorem empty_buffer_returns_normally:
  "imdecode no_decoder [] = Inr None
   \<and> decode_and_extract no_decoder [] = Inl ValueError
   \<and> process_image_file no_decoder (Inr []) = Inr ([], None)"
  by (simp add: no_decoder_def decode_and_extract_def process_image_file_def)

section \<open>Field extraction on normalized text\<close>

lemma newline_not_kept:
  "\<not> (re_word (CHR 0x0A) \<or> CHR 0x0A = CHR '' '' \<or> CHR 0x0A \<in> punctuation)"
  by (simp add: char_class_defs punctuation_def)

lemma clean_no_newline: "CHR 0x0A \<notin> set (clean_extracted_text t)"
  using clean_extracted_text_chars [of "CHR 0x0A" t] newline_not_kept by blast

lemma split_lines_single: "CHR 0x0A \<notin> set s \<Longrightarrow> split_lines s = [s]"
  by (induction s) auto

lemma strip_fixed:
  assumes "s = [] \<or> (\<not> py_isspace (hd s) \<and> \<not> py_isspace (last s))"
  shows "strip s = s"
proof (cases s)
  case Nil
  then show ?thesis by (simp add: strip_defs)
next
  case (Cons x xs)
  with assms have h: "\<not> py_isspace x" and l: "\<not> py_isspace (last s)" by auto
  have "rev s \<noteq> []" using Cons by simp
  then have "dropWhile py_isspace (rev s) = rev s"
    using l by (cases "rev s") (auto simp: last_rev [symmetric] hd_rev)
  then have "rstrip s = s" by (simp add: rstrip_def)
  then show ?thesis using h Cons by (simp add: strip_def lstrip_def)
qed

lemma strip_clean: "strip (clean_extracted_text t) = clean_extracted_text t"
proof -
  have "clean_extracted_text t = [] \<or> (\<not> py_isspace (hd (clean_extracted_text t))
      \<and> \<not> py_isspace (last (clean_extracted_text t)))"
    using strip_ends by (auto simp: clean_extracted_text_def Let_def)
  then show ?thesis by (rule strip_fixed)
qed

lemma no_match_in_empty:
  "re_search match_barcode None [] = None" "re_search match_strength None [] = None"
  by (simp_all add: match_barcode_def match_strength_def)

lemma no_keyword_in_empty: "\<not> (\<exists>keyword \<in> set manufacturer_keywords. py_in keyword (lower []))"
  by (simp add: manufacturer_keywords_def lower_def)

lemma info_step_fixed:
  assumes "strip c = c"
  shows "info_barcode (info_step empty_info c) =
           (case re_search match_barcode None c of Some m \<Rightarrow> m | None \<Rightarrow> [])"
    and "info_strength (info_step empty_info c) =
           (case re_search match_strength None c of Some m \<Rightarrow> m | None \<Rightarrow> [])"
    and "info_manufacturer (info_step empty_info c) =
           (if \<exists>keyword \<in> set manufacturer_keywords. py_in keyword (lower c) then c else [])"
proof -
  show "info_barcode (info_step empty_info c) =
           (case re_search match_barcode None c of Some m \<Rightarrow> m | None \<Rightarrow> [])"
    using assms no_match_in_empty
    by (cases "c = []") (simp_all add: info_step_def Let_def empty_info_def split: option.splits)
  show "info_strength (info_step empty_info c) =
           (case re_search match_strength None c of Some m \<Rightarrow> m | None \<Rightarrow> [])"
    using assms no_match_in_empty
    by (cases "c = []") (simp_all add: info_step_def Let_def empty_info_def split: option.splits)
  show "info_manufacturer (info_step empty_info c) =
           (if \<exists>keyword \<in> set manufacturer_keywords. py_in keyword (lower c) then c else [])"
    using assms no_keyword_in_empty
    by (cases "c = []") (simp_all add: info_step_def Let_def empty_info_def split: option.splits)
qed

text \<open>
  C3 (as the code has it): the normalizer turns every line feed into a space, so the
  normalized text is a single line.  \<open>extract_medicine_info\<close> on normalized text
  therefore examines exactly one line, the whole flattened string: the barcode and the
  strength are the first match of their pattern in it, the manufacturer hint is the
  whole string when it contains a keyword, and the name hints come from the one turn
  of the name loop on it.
\<close>

theorem normalized_text_is_one_line:
  "CHR 0x0A \<notin> set (clean_extracted_text t)
   \<and> split_lines (clean_extracted_text t) = [clean_extracted_text t]
   \<and> extract_medicine_info (clean_extracted_text t) = extract_from_lines [clean_extracted_text t]
   \<and> info_barcode (extract_medicine_info (clean_extracted_text t)) =
       (case re_search match_barcode None (clean_extracted_text t) of Some m \<Rightarrow> m | None \<Rightarrow> [])
   \<and> info_strength (extract_medicine_info (clean_extracted_text t)) =
       (case re_search match_strength None (clean_extracted_text t) of Some m \<Rightarrow> m | None \<Rightarrow> [])
   \<and> info_manufacturer (extract_medicine_info (clean_extracted_text t)) =
       (if \<exists>keyword \<in> set manufacturer_keywords. py_in keyword (lower (clean_extracted_text t))
        then clean_extracted_text t else [])
   \<and> info_brand_name (extract_medicine_info (clean_extracted_text t)) =
       names_brand_name (names_step \<lparr>names_brand_name = [], names_generic_name = []\<rparr>
          (clean_extracted_text t))
   \<and> info_generic_name (extract_medicine_info (clean_extracted_text t)) =
       names_generic_name (names_step \<lparr>names_brand_name = [], names_generic_name = []\<rparr>
          (clean_extracted_text t))"
proof -
  let ?c = "clean_extracted_text t"
  have a: "CHR 0x0A \<notin> set ?c" by (rule clean_no_newline)
  have b: "split_lines ?c = [?c]" using a by (rule split_lines_single)
  have e: "extract_medicine_info ?c = extract_from_lines [?c]"
    by (simp add: extract_medicine_info_def b)
  have f: "strip ?c = ?c" by (rule strip_clean)
  show ?thesis
    using a b e info_step_fixed [OF f]
    by (simp add: extract_from_lines_def Let_def extract_potential_names_def)
qed


theorem normalized_text_is_one_line_witness:
  "split_lines (clean_extracted_text (''NAPA'' @ [CHR 0x0A] @ ''Acme Ltd'')) = [''NAPA Acme Ltd'']
   \<and> info_manufacturer (extract_medicine_info
        (clean_extracted_text (''NAPA'' @ [CHR 0x0A] @ ''Acme Ltd''))) = ''NAPA Acme Ltd''"
proof -
  let ?raw = "''NAPA'' @ [CHR 0x0A] @ ''Acme Ltd''"
  have h: "clean_extracted_text ?raw = ''NAPA Acme Ltd''" by code_simp
  have k: "\<exists>keyword \<in> set manufacturer_keywords. py_in keyword (lower ''NAPA Acme Ltd'')"
    by code_simp
  note T = normalized_text_is_one_line [of ?raw]
  from T have s: "split_lines (clean_extracted_text ?raw) = [clean_extracted_text ?raw]"
    by blast
  from T have m: "info_manufacturer (extract_medicine_info (clean_extracted_text ?raw)) =
       (if \<exists>keyword \<in> set manufacturer_keywords. py_in keyword (lower (clean_extracted_text ?raw))
        then clean_extracted_text ?raw else [])"
    by blast
  note s2 = s [unfolded h]
  note m2 = m [unfolded h]
  from k m2 have m3: "info_manufacturer (extract_medicine_info ''NAPA Acme Ltd'') = ''NAPA Acme Ltd''"
    by (simp only: if_True)
  from s2 m3 show ?thesis unfolding h by (rule conjI)
qed

text \<open>
  A two-line text and its normalization: line by line the first line is the brand hint
  and the second the manufacturer hint; after normalization the two lines are one, no
  brand hint is found and the manufacturer hint is the merged line.
\<close>

lemma raw_lines_info:
  "extract_medicine_info (''NAPA'' @ [CHR 0x0A] @ ''Acme Ltd'')
     = empty_info\<lparr>info_brand_name := ''NAPA'', info_manufacturer := ''Acme Ltd''\<rparr>"
  by code_simp

lemma merged_line_info:
  "extract_medicine_info ''NAPA Acme Ltd''
     = empty_info\<lparr>info_generic_name := ''NAPA Acme Ltd'', info_manufacturer := ''NAPA Acme Ltd''\<rparr>"
  by code_simp

lemma merged_line_clean:
  "clean_extracted_text (''NAPA'' @ [CHR 0x0A] @ ''Acme Ltd'') = ''NAPA Acme Ltd''"
  by code_simp

theorem line_breaks_lost_in_normalization:
  "split_lines (''NAPA'' @ [CHR 0x0A] @ ''Acme Ltd'') = [''NAPA'', ''Acme Ltd'']
   \<and> split_lines (clean_extracted_text (''NAPA'' @ [CHR 0x0A] @ ''Acme Ltd''))
       = [''NAPA Acme Ltd'']
   \<and> info_brand_name (extract_medicine_info (''NAPA'' @ [CHR 0x0A] @ ''Acme Ltd'')) = ''NAPA''
   \<and> info_manufacturer (extract_medicine_info (''NAPA'' @ [CHR 0x0A] @ ''Acme Ltd''))
       = ''Acme Ltd''
   \<and> info_brand_name (extract_medicine_info
        (clean_extracted_text (''NAPA'' @ [CHR 0x0A] @ ''Acme Ltd''))) = []
   \<and> info_manufacturer (extract_medicine_info
        (clean_extracted_text (''NAPA'' @ [CHR 0x0A] @ ''Acme Ltd''))) = ''NAPA Acme Ltd''"
proof -
  have a: "split_lines (''NAPA'' @ [CHR 0x0A] @ ''Acme Ltd'') = [''NAPA'', ''Acme Ltd'']"
    by simp
  have b: "split_lines ''NAPA Acme Ltd'' = [''NAPA Acme Ltd'']"
    by simp
  show ?thesis
    unfolding merged_line_clean raw_lines_info merged_line_info
    using a b by (simp add: empty_info_def)
qed

section \<open>Result aggregator\<close>

lemma dedup_loop_acc: "dedup_loop seen acc rs = acc @ dedup_loop seen [] rs"
proof (induction rs arbitrary: seen acc)
  case Nil
  show ?case by simp
next
  case (Cons r rs)
  show ?case
    using Cons.IH [of "insert (medicine_id (medicine r)) seen" "acc @ [r]"]
      Cons.IH [of "insert (medicine_id (medicine r)) seen" "[r]"]
      Cons.IH [of seen acc]
    by simp
qed

lemma dedup_loop_Cons:
  "dedup_loop seen [] (r # rs) =
     (if medicine_id (medicine r) \<notin> seen
      then r # dedup_loop (insert (medicine_id (medicine r)) seen) [] rs
      else dedup_loop seen [] rs)"
  using dedup_loop_acc [of "insert (medicine_id (medicine r)) seen" "[r]" rs] by simp

lemma dedup_loop_set:
  "set (dedup_loop seen [] rs) \<subseteq> set rs"
  by (induction rs arbitrary: seen) (auto simp: dedup_loop_Cons simp del: dedup_loop.simps(2))

lemma dedup_loop_ids:
  "r \<in> set (dedup_loop seen [] rs) \<Longrightarrow> medicine_id (medicine r) \<notin> seen"
  by (induction rs arbitrary: seen) (auto simp: dedup_loop_Cons simp del: dedup_loop.simps(2) split: if_splits)

lemma dedup_loop_distinct:
  "distinct (map (\<lambda>r. medicine_id (medicine r)) (dedup_loop seen [] rs))"
  by (induction rs arbitrary: seen)
     (auto simp: dedup_loop_Cons simp del: dedup_loop.simps(2) dest: dedup_loop_ids)

lemma dedup_loop_find:
  "find (\<lambda>r. medicine_id (medicine r) = k) (dedup_loop seen [] rs) =
     (if k \<in> seen then None else find (\<lambda>r. medicine_id (medicine r) = k) rs)"
proof (induction rs arbitrary: seen)
  case Nil
  show ?case by simp
next
  case (Cons r rs)
  show ?case
    using Cons.IH [of "insert (medicine_id (medicine r)) seen"] Cons.IH [of seen]
    by (auto simp: dedup_loop_Cons simp del: dedup_loop.simps(2))
qed

lemma appears_before_mem: "appears_before xs a b \<Longrightarrow> a \<in> set xs \<and> b \<in> set xs"
  by (induction xs) auto

lemma appears_before_sorted_wrt: "sorted_wrt P xs \<Longrightarrow> appears_before xs a b \<Longrightarrow> P a b"
  by (induction xs) auto

lemma appears_before_total:
  "a \<in> set xs \<Longrightarrow> b \<in> set xs \<Longrightarrow> a \<noteq> b \<Longrightarrow> appears_before xs a b \<or> appears_before xs b a"
  by (induction xs) auto

lemma appears_before_asym:
  "distinct xs \<Longrightarrow> appears_before xs a b \<Longrightarrow> \<not> appears_before xs b a"
  by (induction xs) (auto dest: appears_before_mem)

lemma appears_before_take: "appears_before (take n xs) a b \<Longrightarrow> appears_before xs a b"
proof (induction xs arbitrary: n)
  case Nil
  then show ?case by simp
next
  case (Cons x xs)
  then show ?case by (cases n) (auto dest: in_set_takeD)
qed

lemma appears_before_filter:
  "appears_before xs a b \<Longrightarrow> P a \<Longrightarrow> P b \<Longrightarrow> appears_before (filter P xs) a b"
  by (induction xs) auto

lemma appears_before_filterD:
  "appears_before (filter P xs) a b \<Longrightarrow> appears_before xs a b"
  by (induction xs) (auto split: if_splits)

lemma appears_before_dedup:
  "appears_before (dedup_loop seen [] rs) a b \<Longrightarrow> appears_before rs a b"
proof (induction rs arbitrary: seen)
  case Nil
  then show ?case by simp
next
  case (Cons r rs)
  then show ?case
    using dedup_loop_set [of "insert (medicine_id (medicine r)) seen" rs]
    by (auto simp: dedup_loop_Cons simp del: dedup_loop.simps(2) split: if_splits)
qed

lemma slice_to_take: "\<exists>n. slice_to limit xs = take n xs"
  by (auto simp: slice_to_def)

lemma sort_by_confidence_props:
  "set (sort_by_confidence xs) = set xs"
  "distinct (sort_by_confidence xs) = distinct xs"
  "sorted_wrt (\<lambda>a b. confidence_score a \<ge> confidence_score b) (sort_by_confidence xs)"
  "filter (\<lambda>y. confidence_score y = k) (sort_by_confidence xs) = filter (\<lambda>y. confidence_score y = k) xs"
proof -
  show "set (sort_by_confidence xs) = set xs" by (simp add: sort_by_confidence_def)
  show "distinct (sort_by_confidence xs) = distinct xs" by (simp add: sort_by_confidence_def)
  have "sorted (map (\<lambda>x. - confidence_score x) (sort_by_confidence xs))"
    by (simp add: sort_by_confidence_def)
  then show "sorted_wrt (\<lambda>a b. confidence_score a \<ge> confidence_score b) (sort_by_confidence xs)"
    by (simp add: sorted_wrt_map)
  have "filter (\<lambda>y. - confidence_score y = - k) (sort_by_confidence xs)
      = filter (\<lambda>y. - confidence_score y = - k) xs"
    unfolding sort_by_confidence_def by (rule sort_key_stable)
  then show "filter (\<lambda>y. confidence_score y = k) (sort_by_confidence xs) = filter (\<lambda>y. confidence_score y = k) xs"
    by simp
qed

lemma find_distinct_key:
  "distinct (map f xs) \<Longrightarrow> r \<in> set xs \<Longrightarrow> find (\<lambda>c. f c = f r) xs = Some r"
  by (induction xs) (auto simp: image_iff)

lemma aggregate_subset: "set (aggregate results limit) \<subseteq> set (remove_duplicate_results results)"
proof -
  obtain n where "slice_to limit (sort_by_confidence (remove_duplicate_results results))
      = take n (sort_by_confidence (remove_duplicate_results results))"
    using slice_to_take by blast
  then show ?thesis
    using set_take_subset [of n "sort_by_confidence (remove_duplicate_results results)"]
    by (simp add: aggregate_def sort_by_confidence_props(1))
qed

lemma distinct_ids_sort:
  assumes "distinct (map f xs)"
  shows "distinct (map f (sort_by_confidence xs))"
proof -
  from assms have "distinct xs" and "inj_on f (set xs)" by (simp_all add: distinct_map)
  then show ?thesis by (simp add: distinct_map sort_by_confidence_props)
qed

lemma aggregate_distinct_ids:
  "distinct (map (\<lambda>r. medicine_id (medicine r)) (aggregate results limit))"
proof -
  let ?S = "sort_by_confidence (remove_duplicate_results results)"
  obtain n where n: "slice_to limit ?S = take n ?S" using slice_to_take by blast
  have "distinct (map (\<lambda>r. medicine_id (medicine r)) ?S)"
    by (rule distinct_ids_sort) (simp add: remove_duplicate_results_def dedup_loop_distinct)
  then have "distinct (take n (map (\<lambda>r. medicine_id (medicine r)) ?S))" by (rule distinct_take)
  then show ?thesis by (simp add: aggregate_def n take_map)
qed

lemma brand_loop_tag: "r \<in> set (brand_loop F h ms) \<Longrightarrow> match_type r = Brand_name \<and> medicine r \<in> set ms"
  by (induction ms) (auto simp: Let_def split: if_splits)

lemma generic_loop_tag: "r \<in> set (generic_loop F h ms) \<Longrightarrow> match_type r = Generic_name \<and> medicine r \<in> set ms"
  by (induction ms) (auto simp: Let_def split: if_splits)

lemma manufacturer_loop_tag: "r \<in> set (manufacturer_loop F h ms) \<Longrightarrow> match_type r = Manufacturer \<and> medicine r \<in> set ms"
  by (induction ms) (auto simp: Let_def split: if_splits)

lemma fuzzy_loop_tag:
  "fuzzy_loop F t ms = Inr rs \<Longrightarrow> r \<in> set rs \<Longrightarrow> match_type r = Fuzzy \<and> medicine r \<in> set ms"
  by (induction ms arbitrary: rs) (auto split: sum.splits if_splits)

lemma strategy_tags:
  "strategy_barcode db info = Inr r1 \<Longrightarrow> r \<in> set r1 \<Longrightarrow> match_type r = Barcode"
  "strategy_brand db F info limit = Inr r2 \<Longrightarrow> r \<in> set r2 \<Longrightarrow> match_type r = Brand_name"
  "strategy_generic db F info limit = Inr r3 \<Longrightarrow> r \<in> set r3 \<Longrightarrow> match_type r = Generic_name"
  "strategy_manufacturer db F info limit = Inr r4 \<Longrightarrow> r \<in> set r4 \<Longrightarrow> match_type r = Manufacturer"
  "strategy_fuzzy db F t = Inr r5 \<Longrightarrow> r \<in> set r5 \<Longrightarrow> match_type r = Fuzzy"
proof -
  show "strategy_barcode db info = Inr r1 \<Longrightarrow> r \<in> set r1 \<Longrightarrow> match_type r = Barcode"
    by (auto simp: strategy_barcode_def split: if_splits sum.splits option.splits)
  show "strategy_brand db F info limit = Inr r2 \<Longrightarrow> r \<in> set r2 \<Longrightarrow> match_type r = Brand_name"
    by (auto simp: strategy_brand_def split: if_splits sum.splits dest: brand_loop_tag)
  show "strategy_generic db F info limit = Inr r3 \<Longrightarrow> r \<in> set r3 \<Longrightarrow> match_type r = Generic_name"
    by (auto simp: strategy_generic_def split: if_splits sum.splits dest: generic_loop_tag)
  show "strategy_manufacturer db F info limit = Inr r4 \<Longrightarrow> r \<in> set r4 \<Longrightarrow> match_type r = Manufacturer"
    by (auto simp: strategy_manufacturer_def split: if_splits sum.splits dest: manufacturer_loop_tag)
  show "strategy_fuzzy db F t = Inr r5 \<Longrightarrow> r \<in> set r5 \<Longrightarrow> match_type r = Fuzzy"
    by (auto simp: strategy_fuzzy_def split: sum.splits dest: fuzzy_loop_tag)
qed

lemma sorted_wrt_uniform:
  "\<forall>r \<in> set rs. strategy_order (match_type r) = k \<Longrightarrow> strategy_ordered rs"
  by (auto simp: strategy_ordered_def sorted_wrt_iff_nth_less)

lemma strategy_ordered_append:
  "strategy_ordered xs \<Longrightarrow> strategy_ordered ys \<Longrightarrow>
   \<forall>x \<in> set xs. \<forall>y \<in> set ys. strategy_order (match_type x) \<le> strategy_order (match_type y) \<Longrightarrow>
   strategy_ordered (xs @ ys)"
  by (simp add: strategy_ordered_def sorted_wrt_append)

lemma collect_results_ordered:
  assumes "collect_results db F info t limit = Inr results"
  shows "strategy_ordered results"
proof -
  from assms obtain r1 r2 r3 r4 r5 where
    s: "strategy_barcode db info = Inr r1" "strategy_brand db F info limit = Inr r2"
       "strategy_generic db F info limit = Inr r3" "strategy_manufacturer db F info limit = Inr r4"
       "strategy_fuzzy db F t = Inr r5"
    and r: "results = r1 @ r2 @ r3 @ r4 @ r5"
    by (auto simp: collect_results_def split: sum.splits)
  have t1: "\<forall>r \<in> set r1. strategy_order (match_type r) = 0" using strategy_tags(1) [OF s(1)] by simp
  have t2: "\<forall>r \<in> set r2. strategy_order (match_type r) = 1" using strategy_tags(2) [OF s(2)] by simp
  have t3: "\<forall>r \<in> set r3. strategy_order (match_type r) = 2" using strategy_tags(3) [OF s(3)] by simp
  have t4: "\<forall>r \<in> set r4. strategy_order (match_type r) = 3" using strategy_tags(4) [OF s(4)] by simp
  have t5: "\<forall>r \<in> set r5. strategy_order (match_type r) = 4" using strategy_tags(5) [OF s(5)] by simp
  have u: "strategy_ordered r1" "strategy_ordered r2" "strategy_ordered r3"
      "strategy_ordered r4" "strategy_ordered r5"
    using t1 t2 t3 t4 t5 by (blast intro: sorted_wrt_uniform)+
  have "strategy_ordered (r1 @ r2 @ r3 @ r4 @ r5)"
    using u t1 t2 t3 t4 t5 by (auto simp: strategy_ordered_def sorted_wrt_append)
  then show ?thesis by (simp add: r)
qed

text \<open>
  C6: \<open>remove_duplicate_results\<close> leaves no two candidates with the same entry id; for
  every id it keeps exactly the first candidate of the list with that id, whatever the
  scores of the later ones; and it keeps the order of the list.  Hence the ranked
  list, and the result of the whole match, hold at most one entry per id, each the
  first-seen candidate of its entry.  The list built by the five strategies is in
  strategy execution order, so first-seen means found by the earliest strategy.
\<close>

theorem dedup_keeps_first_seen:
  "distinct (map (\<lambda>r. medicine_id (medicine r)) (remove_duplicate_results results))
   \<and> (\<forall>k. find (\<lambda>r. medicine_id (medicine r) = k) (remove_duplicate_results results)
           = find (\<lambda>r. medicine_id (medicine r) = k) results)
   \<and> (\<forall>a b. appears_before (remove_duplicate_results results) a b \<longrightarrow> appears_before results a b)
   \<and> distinct (map (\<lambda>r. medicine_id (medicine r)) (aggregate results limit))
   \<and> (\<forall>r \<in> set (aggregate results limit).
         find (\<lambda>c. medicine_id (medicine c) = medicine_id (medicine r)) results = Some r)
   \<and> distinct (map (\<lambda>r. medicine_id (medicine r)) (search_medicines_by_ocr_text db F t limit))
   \<and> (collect_results db F info t limit = Inr results \<longrightarrow> strategy_ordered results)"
proof -
  let ?id = "\<lambda>r. medicine_id (medicine r)"
  have a: "distinct (map ?id (remove_duplicate_results results))"
    by (simp add: remove_duplicate_results_def dedup_loop_distinct)
  have b: "\<forall>k. find (\<lambda>r. ?id r = k) (remove_duplicate_results results) = find (\<lambda>r. ?id r = k) results"
    by (simp add: remove_duplicate_results_def dedup_loop_find)
  have c: "\<forall>a b. appears_before (remove_duplicate_results results) a b \<longrightarrow> appears_before results a b"
    by (simp add: remove_duplicate_results_def appears_before_dedup)
  have d: "distinct (map ?id (aggregate results limit))" by (rule aggregate_distinct_ids)
  have e: "\<forall>r \<in> set (aggregate results limit). find (\<lambda>c. ?id c = ?id r) results = Some r"
  proof
    fix r assume "r \<in> set (aggregate results limit)"
    then have "r \<in> set (remove_duplicate_results results)" using aggregate_subset by blast
    with a have "find (\<lambda>c. ?id c = ?id r) (remove_duplicate_results results) = Some r"
      by (rule find_distinct_key)
    with b show "find (\<lambda>c. ?id c = ?id r) results = Some r" by simp
  qed
  have f: "distinct (map ?id (search_medicines_by_ocr_text db F t limit))"
    by (simp add: search_medicines_by_ocr_text_def aggregate_distinct_ids split: sum.splits)
  have g: "collect_results db F info t limit = Inr results \<longrightarrow> strategy_ordered results"
    using collect_results_ordered by blast
  from a b c d e f g show ?thesis by blast
qed

theorem dedup_keeps_first_seen_witness:
  "candidate 1 (71 / 100) Brand_name
     \<in> set (aggregate [candidate 1 (71 / 100) Brand_name, candidate 2 (9 / 10) Generic_name,
                         candidate 1 1 Fuzzy] 10)
   \<and> find (\<lambda>c. medicine_id (medicine c) = medicine_id (medicine (candidate 1 (71 / 100) Brand_name)))
        [candidate 1 (71 / 100) Brand_name, candidate 2 (9 / 10) Generic_name, candidate 1 1 Fuzzy]
       = Some (candidate 1 (71 / 100) Brand_name)
   \<and> aggregate [candidate 1 (71 / 100) Brand_name, candidate 2 (9 / 10) Generic_name,
                 candidate 1 1 Fuzzy] 10
       = [candidate 2 (9 / 10) Generic_name, candidate 1 (71 / 100) Brand_name]"
proof -
  let ?L = "[candidate 1 (71 / 100) Brand_name, candidate 2 (9 / 10) Generic_name,
             candidate 1 1 Fuzzy]"
  have ex: "aggregate ?L 10 = [candidate 2 (9 / 10) Generic_name, candidate 1 (71 / 100) Brand_name]"
    by code_simp
  have mem: "candidate 1 (71 / 100) Brand_name \<in> set (aggregate ?L 10)"
    unfolding ex by simp
  from dedup_keeps_first_seen [of ?L 10] mem ex show ?thesis by blast
qed

section \<open>Ranking\<close>

lemma dedup_distinct: "distinct (remove_duplicate_results results)"
  using dedup_loop_distinct [of "{}" results]
  by (simp add: remove_duplicate_results_def distinct_map)

lemma aggregate_order:
  assumes R1: "R1 \<in> set (aggregate results limit)" and R2: "R2 \<in> set (aggregate results limit)"
  shows "confidence_score R1 > confidence_score R2 \<Longrightarrow> appears_before (aggregate results limit) R1 R2"
    and "confidence_score R1 = confidence_score R2 \<Longrightarrow>
         appears_before (remove_duplicate_results results) R1 R2 \<Longrightarrow>
         appears_before (aggregate results limit) R1 R2"
    and "confidence_score R1 = confidence_score R2 \<Longrightarrow> strategy_ordered results \<Longrightarrow>
         strategy_order (match_type R1) < strategy_order (match_type R2) \<Longrightarrow>
         appears_before (aggregate results limit) R1 R2"
proof -
  let ?D = "remove_duplicate_results results"
  let ?S = "sort_by_confidence ?D"
  let ?O = "aggregate results limit"
  obtain n where O: "?O = take n ?S" using slice_to_take by (auto simp: aggregate_def)
  have dD: "distinct ?D" by (rule dedup_distinct)
  have dS: "distinct ?S" using dD by (simp add: sort_by_confidence_props)
  have sO: "sorted_wrt (\<lambda>a b. confidence_score a \<ge> confidence_score b) ?O"
    unfolding O using sort_by_confidence_props(3) [of ?D] by (rule sorted_wrt_take)
  have inD: "R1 \<in> set ?D" "R2 \<in> set ?D" using R1 R2 aggregate_subset by blast+
  show gt: "appears_before ?O R1 R2" if "confidence_score R1 > confidence_score R2"
  proof -
    from that have "R1 \<noteq> R2" by auto
    with R1 R2 have "appears_before ?O R1 R2 \<or> appears_before ?O R2 R1"
      by (rule appears_before_total)
    moreover have "\<not> appears_before ?O R2 R1"
      using appears_before_sorted_wrt [OF sO, of R2 R1] that by auto
    ultimately show ?thesis by blast
  qed
  show tie: "appears_before ?O R1 R2"
    if eq: "confidence_score R1 = confidence_score R2" and ab: "appears_before ?D R1 R2"
  proof -
    let ?k = "confidence_score R1"
    have "appears_before (filter (\<lambda>y. confidence_score y = ?k) ?D) R1 R2"
      using ab eq by (intro appears_before_filter) auto
    then have "appears_before (filter (\<lambda>y. confidence_score y = ?k) ?S) R1 R2"
      by (simp add: sort_by_confidence_props(4))
    then have abS: "appears_before ?S R1 R2" by (rule appears_before_filterD)
    have "R1 \<noteq> R2" using appears_before_asym [OF dD ab] ab by auto
    with R1 R2 have "appears_before ?O R1 R2 \<or> appears_before ?O R2 R1"
      by (rule appears_before_total)
    moreover have "\<not> appears_before ?O R2 R1"
    proof
      assume "appears_before ?O R2 R1"
      then have "appears_before ?S R2 R1" unfolding O by (rule appears_before_take)
      with appears_before_asym [OF dS abS] show False by simp
    qed
    ultimately show ?thesis by blast
  qed
  show "appears_before ?O R1 R2"
    if eq: "confidence_score R1 = confidence_score R2" and so: "strategy_ordered results"
      and lt: "strategy_order (match_type R1) < strategy_order (match_type R2)"
  proof -
    from lt have "R1 \<noteq> R2" by auto
    with inD have "appears_before ?D R1 R2 \<or> appears_before ?D R2 R1"
      by (intro appears_before_total)
    moreover have "\<not> appears_before ?D R2 R1"
    proof
      assume "appears_before ?D R2 R1"
      then have "appears_before results R2 R1"
        by (simp add: remove_duplicate_results_def appears_before_dedup)
      with so have "strategy_order (match_type R2) \<le> strategy_order (match_type R1)"
        unfolding strategy_ordered_def by (rule appears_before_sorted_wrt)
      with lt show False by simp
    qed
    ultimately have "appears_before ?D R1 R2" by blast
    with eq show ?thesis by (rule tie)
  qed
qed

text \<open>
  C1 (as the code has it): in the ranked list a result of higher confidence score stands
  before one of lower score; two results of equal score stand in the order of the
  deduplicated candidate list (the sort is stable), and therefore, when the candidate
  list is in strategy execution order, the one with the tag of higher priority stands
  first.  The list the five strategies build is in that order, so in the result of
  \<open>search_medicines_by_ocr_text\<close> ties in score are broken by tag priority.  Nothing
  orders by entry id.
\<close>

theorem ranking_by_score_then_first_seen:
  "(\<forall>R1 \<in> set (aggregate results limit). \<forall>R2 \<in> set (aggregate results limit).
      (confidence_score R1 > confidence_score R2
       \<or> (confidence_score R1 = confidence_score R2
           \<and> appears_before (remove_duplicate_results results) R1 R2)
       \<or> (confidence_score R1 = confidence_score R2 \<and> strategy_ordered results
           \<and> strategy_order (match_type R1) < strategy_order (match_type R2)))
      \<longrightarrow> appears_before (aggregate results limit) R1 R2)
   \<and> (\<forall>R1 \<in> set (search_medicines_by_ocr_text db F t limit).
       \<forall>R2 \<in> set (search_medicines_by_ocr_text db F t limit).
      (confidence_score R1 > confidence_score R2
       \<or> (confidence_score R1 = confidence_score R2
           \<and> strategy_order (match_type R1) < strategy_order (match_type R2)))
      \<longrightarrow> appears_before (search_medicines_by_ocr_text db F t limit) R1 R2)"
proof -
  have a: "\<forall>R1 \<in> set (aggregate results limit). \<forall>R2 \<in> set (aggregate results limit).
      (confidence_score R1 > confidence_score R2
       \<or> (confidence_score R1 = confidence_score R2
           \<and> appears_before (remove_duplicate_results results) R1 R2)
       \<or> (confidence_score R1 = confidence_score R2 \<and> strategy_ordered results
           \<and> strategy_order (match_type R1) < strategy_order (match_type R2)))
      \<longrightarrow> appears_before (aggregate results limit) R1 R2"
    using aggregate_order by blast
  have b: "\<forall>R1 \<in> set (search_medicines_by_ocr_text db F t limit).
       \<forall>R2 \<in> set (search_medicines_by_ocr_text db F t limit).
      (confidence_score R1 > confidence_score R2
       \<or> (confidence_score R1 = confidence_score R2
           \<and> strategy_order (match_type R1) < strategy_order (match_type R2)))
      \<longrightarrow> appears_before (search_medicines_by_ocr_text db F t limit) R1 R2"
  proof (cases "collect_results db F (extract_medicine_info t) t limit")
    case (Inl e)
    then show ?thesis by (simp add: search_medicines_by_ocr_text_def)
  next
    case (Inr rs)
    then have o: "strategy_ordered rs" by (rule collect_results_ordered)
    have s: "search_medicines_by_ocr_text db F t limit = aggregate rs limit"
      using Inr by (simp add: search_medicines_by_ocr_text_def)
    show ?thesis unfolding s using aggregate_order(1,3) [of _ rs limit] o by blast
  qed
  from a b show ?thesis by blast
qed

theorem ranking_by_score_then_first_seen_witness:
  "candidate 2 (9 / 10) Generic_name
     \<in> set (aggregate [candidate 1 (71 / 100) Brand_name, candidate 2 (9 / 10) Generic_name] 10)
   \<and> candidate 1 (71 / 100) Brand_name
     \<in> set (aggregate [candidate 1 (71 / 100) Brand_name, candidate 2 (9 / 10) Generic_name] 10)
   \<and> confidence_score (candidate 2 (9 / 10) Generic_name)
       > confidence_score (candidate 1 (71 / 100) Brand_name)
   \<and> appears_before
        (aggregate [candidate 1 (71 / 100) Brand_name, candidate 2 (9 / 10) Generic_name] 10)
        (candidate 2 (9 / 10) Generic_name) (candidate 1 (71 / 100) Brand_name)"
proof -
  let ?L = "[candidate 1 (71 / 100) Brand_name, candidate 2 (9 / 10) Generic_name]"
  have ex: "aggregate ?L 10 = [candidate 2 (9 / 10) Generic_name, candidate 1 (71 / 100) Brand_name]"
    by code_simp
  have m1: "candidate 2 (9 / 10) Generic_name \<in> set (aggregate ?L 10)" unfolding ex by simp
  have m2: "candidate 1 (71 / 100) Brand_name \<in> set (aggregate ?L 10)" unfolding ex by simp
  have gt: "confidence_score (candidate 2 (9 / 10) Generic_name)
       > confidence_score (candidate 1 (71 / 100) Brand_name)"
    by (simp add: candidate_def)
  from ranking_by_score_then_first_seen [of ?L 10] m1 m2 gt show ?thesis by blast
qed

text \<open>
  Two candidates of equal score and equal tag, the one with the larger entry id first
  in the candidate list: the ranked list keeps them in that order.
\<close>

lemma tie_example:
  "aggregate [candidate 2 (9 / 10) Brand_name, candidate 1 (9 / 10) Brand_name] 10
     = [candidate 2 (9 / 10) Brand_name, candidate 1 (9 / 10) Brand_name]"
  by code_simp

lemma tie_example_fields:
  "confidence_score (candidate 1 (9 / 10) Brand_name) = confidence_score (candidate 2 (9 / 10) Brand_name)"
  "match_type (candidate 1 (9 / 10) Brand_name) = match_type (candidate 2 (9 / 10) Brand_name)"
  "medicine_id (medicine (candidate 1 (9 / 10) Brand_name))
     < medicine_id (medicine (candidate 2 (9 / 10) Brand_name))"
  "candidate 1 (9 / 10) Brand_name \<noteq> candidate 2 (9 / 10) Brand_name"
  by (simp_all add: candidate_def entry_def)

theorem tie_not_broken_by_id:
  "confidence_score (candidate 1 (9 / 10) Brand_name) = confidence_score (candidate 2 (9 / 10) Brand_name)
   \<and> match_type (candidate 1 (9 / 10) Brand_name) = match_type (candidate 2 (9 / 10) Brand_name)
   \<and> medicine_id (medicine (candidate 1 (9 / 10) Brand_name))
       < medicine_id (medicine (candidate 2 (9 / 10) Brand_name))
   \<and> aggregate [candidate 2 (9 / 10) Brand_name, candidate 1 (9 / 10) Brand_name] 10
       = [candidate 2 (9 / 10) Brand_name, candidate 1 (9 / 10) Brand_name]
   \<and> \<not> appears_before
         (aggregate [candidate 2 (9 / 10) Brand_name, candidate 1 (9 / 10) Brand_name] 10)
         (candidate 1 (9 / 10) Brand_name) (candidate 2 (9 / 10) Brand_name)"
  unfolding tie_example using tie_example_fields by simp

section \<open>Barcode strategy and the end-to-end scenario\<close>






lemma scan_text_info:
  "extract_medicine_info scan_text = empty_info\<lparr>info_strength := ''500MG'',
     info_manufacturer := scan_text, info_barcode := ''8901234567''\<rparr>"
  by code_simp





section \<open>Exceptions in the match engine\<close>

lemma fuzzy_loop_fails:
  "m \<in> set ms \<Longrightarrow> max_similarity F t m = Inl e \<Longrightarrow> \<exists>e'. fuzzy_loop F t ms = Inl e'"
  by (induction ms) (auto split: sum.splits)

lemma collect_results_fails:
  assumes "(\<exists>e. strategy_barcode db info = Inl e) \<or> (\<exists>e. strategy_brand db F info limit = Inl e)
     \<or> (\<exists>e. strategy_generic db F info limit = Inl e)
     \<or> (\<exists>e. strategy_manufacturer db F info limit = Inl e)
     \<or> (\<exists>e. strategy_fuzzy db F t = Inl e)"
  shows "\<exists>e. collect_results db F info t limit = Inl e"
  using assms by (auto simp: collect_results_def split: sum.splits)

lemma search_empty_on_failure:
  assumes "\<exists>e. collect_results db F (extract_medicine_info t) t limit = Inl e"
  shows "search_medicines_by_ocr_text db F t limit = []"
  using assms by (auto simp: search_medicines_by_ocr_text_def)

lemma failing_call_fails_strategy:
  "info_barcode info \<noteq> [] \<Longrightarrow> get_medicine_by_barcode db (info_barcode info) = Inl e \<Longrightarrow>
     strategy_barcode db info = Inl e"
  "info_brand_name info \<noteq> [] \<Longrightarrow> search_medicines db (info_brand_name info) limit = Inl e \<Longrightarrow>
     strategy_brand db F info limit = Inl e"
  "info_generic_name info \<noteq> [] \<Longrightarrow> search_medicines db (info_generic_name info) limit = Inl e \<Longrightarrow>
     strategy_generic db F info limit = Inl e"
  "info_manufacturer info \<noteq> [] \<Longrightarrow> search_medicines db (info_manufacturer info) limit = Inl e \<Longrightarrow>
     strategy_manufacturer db F info limit = Inl e"
  "get_medicines db 100 = Inl e \<Longrightarrow> strategy_fuzzy db F t = Inl e"
  "get_medicines db 100 = Inr ms \<Longrightarrow> m \<in> set ms \<Longrightarrow> max_similarity F t m = Inl e \<Longrightarrow>
     \<exists>e'. strategy_fuzzy db F t = Inl e'"
  by (auto simp: strategy_barcode_def strategy_brand_def strategy_generic_def
      strategy_manufacturer_def strategy_fuzzy_def dest: fuzzy_loop_fails)

lemma any_failure_empties_match:
  assumes "(info_barcode (extract_medicine_info t) \<noteq> []
        \<and> get_medicine_by_barcode db (info_barcode (extract_medicine_info t)) = Inl e)
     \<or> (info_brand_name (extract_medicine_info t) \<noteq> []
        \<and> search_medicines db (info_brand_name (extract_medicine_info t)) limit = Inl e)
     \<or> (info_generic_name (extract_medicine_info t) \<noteq> []
        \<and> search_medicines db (info_generic_name (extract_medicine_info t)) limit = Inl e)
     \<or> (info_manufacturer (extract_medicine_info t) \<noteq> []
        \<and> search_medicines db (info_manufacturer (extract_medicine_info t)) limit = Inl e)
     \<or> get_medicines db 100 = Inl e
     \<or> (\<exists>ms m. get_medicines db 100 = Inr ms \<and> m \<in> set ms \<and> max_similarity F t m = Inl e)"
  shows "search_medicines_by_ocr_text db F t limit = []"
proof -
  let ?I = "extract_medicine_info t"
  have "(\<exists>e. strategy_barcode db ?I = Inl e) \<or> (\<exists>e. strategy_brand db F ?I limit = Inl e)
     \<or> (\<exists>e. strategy_generic db F ?I limit = Inl e)
     \<or> (\<exists>e. strategy_manufacturer db F ?I limit = Inl e)
     \<or> (\<exists>e. strategy_fuzzy db F t = Inl e)"
    using assms
  proof (elim disjE conjE exE)
    assume "info_barcode ?I \<noteq> []" "get_medicine_by_barcode db (info_barcode ?I) = Inl e"
    then have "strategy_barcode db ?I = Inl e" by (rule failing_call_fails_strategy(1))
    then show ?thesis by blast
  next
    assume "info_brand_name ?I \<noteq> []" "search_medicines db (info_brand_name ?I) limit = Inl e"
    then have "strategy_brand db F ?I limit = Inl e" by (rule failing_call_fails_strategy(2))
    then show ?thesis by blast
  next
    assume "info_generic_name ?I \<noteq> []" "search_medicines db (info_generic_name ?I) limit = Inl e"
    then have "strategy_generic db F ?I limit = Inl e" by (rule failing_call_fails_strategy(3))
    then show ?thesis by blast
  next
    assume "info_manufacturer ?I \<noteq> []" "search_medicines db (info_manufacturer ?I) limit = Inl e"
    then have "strategy_manufacturer db F ?I limit = Inl e" by (rule failing_call_fails_strategy(4))
    then show ?thesis by blast
  next
    assume "get_medicines db 100 = Inl e"
    then have "strategy_fuzzy db F t = Inl e" by (rule failing_call_fails_strategy(5))
    then show ?thesis by blast
  next
    fix ms m
    assume "get_medicines db 100 = Inr ms" "m \<in> set ms" "max_similarity F t m = Inl e"
    then have "\<exists>e'. strategy_fuzzy db F t = Inl e'" by (rule failing_call_fails_strategy(6))
    then show ?thesis by blast
  qed
  then have "\<exists>e. collect_results db F ?I t limit = Inl e" by (rule collect_results_fails)
  then show ?thesis by (rule search_empty_on_failure)
qed

lemma loops_append:
  "brand_loop F h (xs @ ys) = brand_loop F h xs @ brand_loop F h ys"
  "generic_loop F h (xs @ ys) = generic_loop F h xs @ generic_loop F h ys"
  "manufacturer_loop F h (xs @ ys) = manufacturer_loop F h xs @ manufacturer_loop F h ys"
  by (induction xs) (simp_all add: Let_def)

lemma loops_skip_zero:
  "calculate_name_confidence F h (brand_name m) = 0 \<Longrightarrow>
     brand_loop F h (ms1 @ m # ms2) = brand_loop F h ms1 @ brand_loop F h ms2"
  "calculate_name_confidence F h (generic_name m) = 0 \<Longrightarrow>
     generic_loop F h (ms1 @ m # ms2) = generic_loop F h ms1 @ generic_loop F h ms2"
  "calculate_name_confidence F h (manufacturer m) = 0 \<Longrightarrow>
     manufacturer_loop F h (ms1 @ m # ms2) = manufacturer_loop F h ms1 @ manufacturer_loop F h ms2"
  by (simp_all add: loops_append)

lemma raising_ratio_scores_zero:
  assumes "a \<noteq> []" "b \<noteq> []" "lower a \<noteq> lower b" "\<not> py_in (lower a) (lower b)"
    "\<not> py_in (lower b) (lower a)" "ratio F (lower a) (lower b) = Inl e"
  shows "calculate_name_confidence F a b = 0"
  using assms by (simp add: calculate_name_confidence_def)

lemma broken_listing_facts:
  "get_medicines (broken_listing [napa]) 100 = Inl DatabaseError"
  "get_medicine_by_barcode (broken_listing [napa]) ''8901234567'' = Inr (Some napa)"
  by (simp_all add: broken_listing_def medicine_service_def table_get_medicine_by_barcode_def
      napa_def entry_def)

lemma napo_scoring:
  "''Napo'' \<noteq> []" "brand_name napa \<noteq> []" "lower ''Napo'' \<noteq> lower (brand_name napa)"
  "\<not> py_in (lower ''Napo'') (lower (brand_name napa))"
  "\<not> py_in (lower (brand_name napa)) (lower ''Napo'')"
  by code_simp+

text \<open>
  C2 (as the code has it): an exception of any catalog call that a strategy makes, or
  of the partial-ratio computation for any entry in the fuzzy strategy, reaches the one
  handler around the body, and the match returns the empty list, whatever the other
  strategies had found.  An exception of \<open>fuzz.ratio\<close> while a name is scored in the
  brand, generic or manufacturer strategy is caught inside
  \<open>calculate_name_confidence\<close>: the score is 0.0, and an entry of score 0.0 is skipped
  while the entries before and after it are treated as if it were absent.
\<close>

theorem exceptions_in_match:
  "(((info_barcode (extract_medicine_info t) \<noteq> []
        \<and> get_medicine_by_barcode db (info_barcode (extract_medicine_info t)) = Inl e)
     \<or> (info_brand_name (extract_medicine_info t) \<noteq> []
        \<and> search_medicines db (info_brand_name (extract_medicine_info t)) limit = Inl e)
     \<or> (info_generic_name (extract_medicine_info t) \<noteq> []
        \<and> search_medicines db (info_generic_name (extract_medicine_info t)) limit = Inl e)
     \<or> (info_manufacturer (extract_medicine_info t) \<noteq> []
        \<and> search_medicines db (info_manufacturer (extract_medicine_info t)) limit = Inl e)
     \<or> get_medicines db 100 = Inl e
     \<or> (\<exists>ms m. get_medicines db 100 = Inr ms \<and> m \<in> set ms \<and> max_similarity F t m = Inl e))
    \<longrightarrow> search_medicines_by_ocr_text db F t limit = [])
   \<and> (a \<noteq> [] \<and> b \<noteq> [] \<and> lower a \<noteq> lower b \<and> \<not> py_in (lower a) (lower b)
        \<and> \<not> py_in (lower b) (lower a) \<and> ratio F (lower a) (lower b) = Inl e'
      \<longrightarrow> calculate_name_confidence F a b = 0)
   \<and> (calculate_name_confidence F h (brand_name m) = 0 \<longrightarrow>
        brand_loop F h (ms1 @ m # ms2) = brand_loop F h ms1 @ brand_loop F h ms2)
   \<and> (calculate_name_confidence F h (generic_name m) = 0 \<longrightarrow>
        generic_loop F h (ms1 @ m # ms2) = generic_loop F h ms1 @ generic_loop F h ms2)
   \<and> (calculate_name_confidence F h (manufacturer m) = 0 \<longrightarrow>
        manufacturer_loop F h (ms1 @ m # ms2)
          = manufacturer_loop F h ms1 @ manufacturer_loop F h ms2)"
  using any_failure_empties_match [of t db e limit F] raising_ratio_scores_zero [of a b F e']
    loops_skip_zero [of F h m ms1 ms2]
  by blast

theorem exceptions_in_match_witness:
  "get_medicines (broken_listing [napa]) 100 = Inl DatabaseError
   \<and> search_medicines_by_ocr_text (broken_listing [napa]) (fuzz_const (Inl FuzzError)) scan_text 10 = []
   \<and> ratio (fuzz_const (Inl FuzzError)) (lower ''Napo'') (lower (brand_name napa)) = Inl FuzzError
   \<and> calculate_name_confidence (fuzz_const (Inl FuzzError)) ''Napo'' (brand_name napa) = 0
   \<and> brand_loop (fuzz_const (Inl FuzzError)) ''Napo'' ([entry 2 ''Napo'' [] [] None] @ napa # [])
       = brand_loop (fuzz_const (Inl FuzzError)) ''Napo'' [entry 2 ''Napo'' [] [] None]
         @ brand_loop (fuzz_const (Inl FuzzError)) ''Napo'' []"
proof -
  let ?F = "fuzz_const (Inl FuzzError)"
  have r: "ratio ?F (lower ''Napo'') (lower (brand_name napa)) = Inl FuzzError"
    by (simp add: fuzz_const_def)
  from broken_listing_facts(1) napo_scoring r
    exceptions_in_match [of scan_text "broken_listing [napa]" DatabaseError 10 ?F
      "''Napo''" "brand_name napa" FuzzError "''Napo''" napa "[entry 2 ''Napo'' [] [] None]" "[]"]
  show ?thesis by blast
qed

text \<open>
  The bulk listing of the fuzzy strategy raises: the barcode strategy has found the
  entry, and the match returns nothing.
\<close>

lemma barcode_found_before_failure:
  "strategy_barcode (broken_listing [napa]) (extract_medicine_info scan_text)
     = Inr [\<lparr>medicine = napa, confidence_score = 95 / 100,
              matched_text = ''8901234567'', match_type = Barcode\<rparr>]"
  unfolding scan_text_info
  by (simp add: strategy_barcode_def broken_listing_facts empty_info_def)

lemma broken_listing_match:
  "search_medicines_by_ocr_text (broken_listing [napa]) (fuzz_const (Inr 100)) scan_text 10 = []"
  by (rule any_failure_empties_match [where e = DatabaseError]) (simp add: broken_listing_facts)

theorem catalog_failure_empties_match:
  "strategy_barcode (broken_listing [napa]) (extract_medicine_info scan_text)
     = Inr [\<lparr>medicine = napa, confidence_score = 95 / 100,
              matched_text = ''8901234567'', match_type = Barcode\<rparr>]
   \<and> get_medicines (broken_listing [napa]) 100 = Inl DatabaseError
   \<and> search_medicines_by_ocr_text (broken_listing [napa]) (fuzz_const (Inr 100)) scan_text 10 = []"
  using barcode_found_before_failure broken_listing_facts(1) broken_listing_match by blast

end
